theory Spec2Isabelle
  imports Complex_Main "HOL-Library.Sublist" "HOL-Library.Multiset"
begin

section \<open>Python numerics used by the simulation engine\<close>

text \<open>
  A Python int is an integer; a Python float is the real number it holds. An
  arithmetic operation on floats returns the binary64 number nearest to the exact
  result, a tie going to the even significand: \<open>double_round\<close> of the exact result
  (results stay below the overflow threshold \<open>2 ^ 1024\<close>). The target count, the
  metrics and the percentage change, where a last digit or a truncation is claimed,
  are computed with this rounding. The effects on the edges, products and quotients
  with fixed factors, are stated on the exact reals, from which each float operation
  departs by at most the fraction \<open>2 ^ -53\<close> of the result.
\<close>

text \<open>
  The binary exponent \<open>e\<close> of a positive number, \<open>2 ^ e \<le> x < 2 ^ (e + 1)\<close>, found by
  halving or doubling; the first argument bounds the number of steps.
\<close>

fun binade :: "nat \<Rightarrow> real \<Rightarrow> int" where
  "binade 0 x = 0"
| "binade (Suc n) x =
     (if 2 \<le> x then binade n (x / 2) + 1
      else if x < 1 then binade n (x * 2) - 1
      else 0)"

definition two_to :: "int \<Rightarrow> real" where
  "two_to e = (if 0 \<le> e then 2 ^ nat e else 1 / 2 ^ nat (- e))"

text \<open>The exponent of a double is at least -1022: below that the spacing stays fixed.\<close>

definition double_exponent :: "real \<Rightarrow> int" where
  "double_exponent x = max (- 1022) (binade 2100 \<bar>x\<bar>)"

text \<open>
  Rounding to 53 significant bits: the spacing of the doubles around \<open>x\<close> is
  \<open>2 ^ (e - 52)\<close>, and \<open>x\<close> goes to the nearest multiple of it.
\<close>

definition round_half_even :: "real \<Rightarrow> int" where
  "round_half_even x =
     (let f = \<lfloor>x\<rfloor>; d = x - of_int f
      in if d < 1 / 2 then f
         else if 1 / 2 < d then f + 1
         else if even f then f else f + 1)"

definition double_round :: "real \<Rightarrow> real" where
  "double_round x =
     (if x = 0 then 0
      else (let u = two_to (double_exponent x - 52)
            in of_int (round_half_even (x / u)) * u))"

text \<open>
  A decimal literal denotes the nearest double; an int in float arithmetic is
  converted to the nearest double.
\<close>

definition py_float :: "real \<Rightarrow> real" where
  "py_float x = double_round x"

definition float_of_int :: "int \<Rightarrow> real" where
  "float_of_int n = double_round (real_of_int n)"

definition fadd :: "real \<Rightarrow> real \<Rightarrow> real" where
  "fadd x y = double_round (x + y)"

definition fsub :: "real \<Rightarrow> real \<Rightarrow> real" where
  "fsub x y = double_round (x - y)"

definition fmul :: "real \<Rightarrow> real \<Rightarrow> real" where
  "fmul x y = double_round (x * y)"

datatype py_error = KeyError | ZeroDivisionError

text \<open>\<open>x / y\<close>: true division raises on a zero divisor.\<close>

definition py_truediv :: "real \<Rightarrow> real \<Rightarrow> py_error + real" where
  "py_truediv x y = (if y = 0 then Inl ZeroDivisionError else Inr (double_round (x / y)))"

text \<open>Division by a literal other than zero.\<close>

definition fdiv :: "real \<Rightarrow> real \<Rightarrow> real" where
  "fdiv x c = double_round (x / c)"

text \<open>\<open>int(x)\<close> on a float truncates toward zero.\<close>

definition py_int :: "real \<Rightarrow> int" where
  "py_int x = (if 0 \<le> x then \<lfloor>x\<rfloor> else \<lceil>x\<rceil>)"

text \<open>
  \<open>round(x, n)\<close> on a float: the exact value of \<open>x\<close> is rounded to \<open>n\<close> decimals, a
  tie going to the even last digit, and the decimal result is converted back to the
  nearest double. \<open>round(x)\<close> gives the integer, with the same treatment of ties.
\<close>

definition py_round :: "real \<Rightarrow> nat \<Rightarrow> real" where
  "py_round x n = double_round (of_int (round_half_even (x * 10 ^ n)) / 10 ^ n)"

section \<open>Python strings\<close>

text \<open>
  A string is the list of the bytes of its UTF-8 form, on which the substring test
  \<open>kw in s\<close> is the search for a contiguous sublist. \<open>str.lower\<close> is a parameter
  \<open>lw\<close> of the definitions that call it. On ASCII text it is \<open>ascii_lower\<close>, which
  the examples use: an upper-case letter and its lower-case form differ in bit 5 of
  the code.
\<close>

fun ascii_lower_char :: "char \<Rightarrow> char" where
  "ascii_lower_char (Char b0 b1 b2 b3 b4 b5 b6 b7) =
     (let n = (of_char (Char b0 b1 b2 b3 b4 b5 b6 b7) :: nat)
      in if 65 \<le> n \<and> n \<le> 90 then Char b0 b1 b2 b3 b4 True b6 b7
         else Char b0 b1 b2 b3 b4 b5 b6 b7)"

definition ascii_lower :: "string \<Rightarrow> string" where
  "ascii_lower s = map ascii_lower_char s"

fun contains :: "string \<Rightarrow> string \<Rightarrow> bool" where
  "contains kw [] = (kw = [])"
| "contains kw (c # cs) = (prefix kw (c # cs) \<or> contains kw cs)"

section \<open>Graph state (core/city\_model.py, graph\_to\_state\_dict)\<close>

text \<open>
  The state dict of the road network. An edge dict becomes a record; the
  \<open>closed\<close> key is absent until a closure writes it. The \<open>edges\<close> dict keeps
  insertion order, so it is an association list from edge id to edge; a Python dict
  has distinct keys. \<open>name\<close> and \<open>highway\<close> hold the text that \<open>str(...)\<close>
  gives for the stored value.
\<close>

type_synonym edge_id = string

record edge =
  u_node :: int
  v_node :: int
  key :: int
  length_m :: real
  highway :: string
  name :: string
  capacity :: int
  speed_kph :: real
  baseline_flow :: int
  congestion_ratio :: real
  travel_time :: real
  geometry :: "(real \<times> real) list option"
  closed :: "bool option"

type_synonym edge_dict = "(edge_id \<times> edge) list"

record graph_data =
  nodes :: "(int \<times> real \<times> real) list"
  edges :: edge_dict
  node_count :: nat
  edge_count :: nat
  policy_applied :: "string option"
  primary_affected_edges :: "edge_id list option"

definition edge_ids :: "edge_dict \<Rightarrow> edge_id list" where
  "edge_ids es = map fst es"

definition is_dict :: "edge_dict \<Rightarrow> bool" where
  "is_dict es = distinct (edge_ids es)"

section \<open>Metrics aggregation (core/city\_model.py, compute\_baseline\_metrics)\<close>

record metrics =
  avg_congestion_ratio :: real
  severe_congestion_pct :: real
  avg_travel_time_min :: real
  total_vehicle_flow :: int
  daily_co2_kg :: real
  economic_loss_inr_per_day :: real
  total_edges :: nat
  total_nodes :: nat

text \<open>
  \<open>float(numpy.mean(xs))\<close> of a non-empty list is the parameter \<open>np_mean\<close>: the
  order in which the library adds the elements is its own. The empty dict returned
  for a graph without edges is \<open>None\<close>.
\<close>

definition compute_baseline_metrics ::
  "(real list \<Rightarrow> real) \<Rightarrow> graph_data \<Rightarrow> py_error + metrics option" where
  "compute_baseline_metrics np_mean g =
     (let es = map snd (edges g);
          n = length es
      in if n = 0 then Inr None
         else
           (let congestion_ratios = map congestion_ratio es;
                travel_times = map travel_time es;
                flows = map baseline_flow es;
                avg_congestion = np_mean congestion_ratios;
                severe_count = length (filter (\<lambda>r. py_float 0.8 < r) congestion_ratios);
                total_flow = sum_list flows;
                avg_length_km = fdiv (np_mean (map length_m es)) 1000;
                emission_factor = py_float 0.21;
                co2 = fmul (fmul (fmul (float_of_int total_flow) avg_length_km) emission_factor) 8;
                delay_fraction = max 0 (fsub avg_congestion (py_float 0.4));
                avg_tt_min = fdiv (np_mean travel_times) 60;
                delay_time_min = fmul avg_tt_min delay_fraction;
                economic_loss =
                  fmul (fmul (fmul (float_of_int total_flow) (fdiv delay_time_min 60)) 50) 8
            in case py_truediv (real severe_count) (real n) of
                 Inl err \<Rightarrow> Inl err
               | Inr share \<Rightarrow>
                   Inr (Some \<lparr>avg_congestion_ratio = py_round avg_congestion 3,
                              severe_congestion_pct = py_round (fmul share 100) 1,
                              avg_travel_time_min = py_round avg_tt_min 2,
                              total_vehicle_flow = total_flow,
                              daily_co2_kg = py_round co2 1,
                              economic_loss_inr_per_day = py_round economic_loss 0,
                              total_edges = n,
                              total_nodes = node_count g\<rparr>)))"

section \<open>Delta and severity analysis (agents/impact\_analysis.py)\<close>

definition severity :: "real \<Rightarrow> string \<Rightarrow> string" where
  "severity delta_pct direction =
     (if direction = ''lower_is_better'' then
        (if delta_pct < - 15 then ''highly_positive''
         else if delta_pct < - 5 then ''positive''
         else if delta_pct < 5 then ''neutral''
         else if delta_pct < 15 then ''negative''
         else ''highly_negative'')
      else
        (if delta_pct > 15 then ''highly_positive''
         else if delta_pct > 5 then ''positive''
         else if delta_pct > - 5 then ''neutral''
         else if delta_pct > - 15 then ''negative''
         else ''highly_negative''))"

text \<open>
  \<open>pct_change\<close>: the guard returns before the division is reached; without it the
  division would raise on a zero \<open>before\<close>.
\<close>

definition pct_change :: "real \<Rightarrow> real \<Rightarrow> py_error + real" where
  "pct_change before after =
     (if before = 0 then Inr 0
      else (case py_truediv (fsub after before) before of
              Inl err \<Rightarrow> Inl err
            | Inr q \<Rightarrow> Inr (py_round (fmul q 100) 1)))"

text \<open>
  The citizen profiles are decoded JSON objects read with \<open>dict.get\<close>: a missing
  field is \<open>None\<close>.
\<close>

record citizen_profile =
  group :: "string option"
  impact_score :: "real option"
  impact_sentiment :: "string option"
  key_concern :: "string option"
  affected_population :: "real option"

definition get_impact_score :: "citizen_profile \<Rightarrow> real" where
  "get_impact_score p = (case impact_score p of None \<Rightarrow> 0 | Some s \<Rightarrow> s)"

definition get_affected_population :: "real \<Rightarrow> citizen_profile \<Rightarrow> real" where
  "get_affected_population dflt p = (case affected_population p of None \<Rightarrow> dflt | Some n \<Rightarrow> n)"

definition overall_satisfaction :: "citizen_profile list \<Rightarrow> real" where
  "overall_satisfaction citizen_profiles =
     (if citizen_profiles \<noteq> [] then
        (let total_pop = sum_list (map (get_affected_population 1) citizen_profiles)
         in if 0 < total_pop then
              sum_list (map (\<lambda>p. get_impact_score p * get_affected_population 0 p) citizen_profiles)
                / total_pop
            else 0)
      else 0)"

text \<open>The \<open>citizen_satisfaction\<close> entry of the impact scores.\<close>

definition citizen_satisfaction_score :: "citizen_profile list \<Rightarrow> real" where
  "citizen_satisfaction_score citizen_profiles = py_round (overall_satisfaction citizen_profiles) 2"

definition citizen_satisfaction_severity :: "citizen_profile list \<Rightarrow> string" where
  "citizen_satisfaction_severity citizen_profiles =
     severity (- overall_satisfaction citizen_profiles * 10) ''lower_is_better''"

section \<open>Policy application (agents/policy\_testing.py)\<close>

text \<open>
  The structured policy parameters are a JSON object read with \<open>dict.get\<close>, so every
  field may be missing.
\<close>

record policy_params =
  policy_type :: "string option"
  affected_area :: "string option"
  affected_road_keywords :: "string list option"
  scope :: "string option"
  description_for_report :: "string option"
  estimated_affected_edges_pct :: "real option"

text \<open>
  The table \<open>POLICY_EFFECTS\<close>. The corridor entries are read for \<open>new_route\<close> and
  \<open>transit_add\<close> only.
\<close>

definition congestion_multiplier_surrounding :: real where
  "congestion_multiplier_surrounding = 1.35"

definition congestion_reduction_corridor :: "string \<Rightarrow> real" where
  "congestion_reduction_corridor ptype = (if ptype = ''new_route'' then 0.75 else 0.70)"

definition modal_shift_factor :: "string \<Rightarrow> real" where
  "modal_shift_factor ptype = (if ptype = ''new_route'' then 0.15 else 0.20)"

definition congestion_reduction_network :: real where
  "congestion_reduction_network = 0.90"

definition speed_improvement :: real where
  "speed_improvement = 1.10"

text \<open>
  \<open>_parse_policy_with_llm\<close>: the request to the text-generation service and the JSON
  decoding of its answer are the parameter \<open>llm\<close>; \<open>None\<close> stands for any exception
  inside the \<open>try\<close> block, on which the \<open>except\<close> branch returns the defaults.
\<close>

definition default_policy_params :: "string \<Rightarrow> policy_params" where
  "default_policy_params policy =
     \<lparr>policy_type = Some ''road_closure'',
      affected_area = Some ''Central Kochi'',
      affected_road_keywords = Some [],
      scope = Some ''local'',
      description_for_report = Some policy,
      estimated_affected_edges_pct = Some 5\<rparr>"

definition parse_policy_with_llm ::
  "(string \<Rightarrow> policy_params option) \<Rightarrow> string \<Rightarrow> policy_params" where
  "parse_policy_with_llm llm policy =
     (case llm policy of
        Some params \<Rightarrow> params
      | None \<Rightarrow> default_policy_params policy)"

subsection \<open>Target-edge selection\<close>

definition keyword_match :: "(string \<Rightarrow> string) \<Rightarrow> string list \<Rightarrow> edge \<Rightarrow> bool" where
  "keyword_match lw keywords edata =
     (let nm = lw (name edata); hw = lw (highway edata)
      in keywords \<noteq> [] \<and> list_ex (\<lambda>kw. contains kw nm \<or> contains kw hw) keywords)"

fun collect_matching ::
  "(string \<Rightarrow> string) \<Rightarrow> string list \<Rightarrow> edge_dict \<Rightarrow> edge_id list" where
  "collect_matching lw keywords [] = []"
| "collect_matching lw keywords ((eid, edata) # es) =
     (if keyword_match lw keywords edata then eid # collect_matching lw keywords es
      else collect_matching lw keywords es)"

text \<open>
  \<open>sorted(xs, key=f, reverse=True)\<close> is a stable sort into descending key order:
  elements with equal keys keep their order.
\<close>

definition sorted_reverse :: "('a \<Rightarrow> real) \<Rightarrow> 'a list \<Rightarrow> 'a list" where
  "sorted_reverse f xs = sort_key (\<lambda>x. - f x) xs"

definition target_count_of :: "nat \<Rightarrow> real \<Rightarrow> nat" where
  "target_count_of n_edges affected_pct =
     nat (max 1 (py_int (fmul (float_of_int (int n_edges)) affected_pct)))"

definition select_primary_edges ::
  "(string \<Rightarrow> string) \<Rightarrow> edge_dict \<Rightarrow> string list \<Rightarrow> nat \<Rightarrow> edge_id list" where
  "select_primary_edges lw es keywords target_count =
     (let matching_edges = collect_matching lw keywords es;
          extended =
            (if length matching_edges < target_count then
               (let sorted_by_congestion =
                      sorted_reverse snd
                        (map (\<lambda>(eid, e). (eid, congestion_ratio e))
                           (filter (\<lambda>(eid, e). eid \<notin> set matching_edges) es));
                    supplement =
                      map fst (take (target_count - length matching_edges) sorted_by_congestion)
                in matching_edges @ supplement)
             else matching_edges)
      in take target_count extended)"

subsection \<open>Effects on the working copy\<close>

text \<open>
  \<open>for eid in ids: edges[eid][...] = ...\<close> on the edge dict: every iteration looks
  the edge up (a missing key raises \<open>KeyError\<close>) and writes the changed attributes
  back in place.
\<close>

fun update_edges :: "(edge \<Rightarrow> edge) \<Rightarrow> edge_id list \<Rightarrow> edge_dict \<Rightarrow> py_error + edge_dict" where
  "update_edges f [] es = Inr es"
| "update_edges f (eid # eids) es =
     (case map_of es eid of
        None \<Rightarrow> Inl KeyError
      | Some e \<Rightarrow>
          update_edges f eids (map (\<lambda>(k, x). if k = eid then (k, f x) else (k, x)) es))"

definition close_edge :: "edge \<Rightarrow> edge" where
  "close_edge e = e\<lparr>congestion_ratio := 0, baseline_flow := 0, closed := Some True\<rparr>"

definition spill_edge :: "edge \<Rightarrow> edge" where
  "spill_edge e =
     e\<lparr>congestion_ratio := min 1 (congestion_ratio e * congestion_multiplier_surrounding)\<rparr>"

definition corridor_edge :: "string \<Rightarrow> edge \<Rightarrow> edge" where
  "corridor_edge ptype e =
     (let factor = congestion_reduction_corridor ptype;
          modal_shift = modal_shift_factor ptype
      in e\<lparr>congestion_ratio := max 0.1 (congestion_ratio e * factor),
           baseline_flow := py_int (real_of_int (baseline_flow e) * (1 - modal_shift))\<rparr>)"

definition network_wide_edge :: "edge \<Rightarrow> edge" where
  "network_wide_edge e = e\<lparr>congestion_ratio := max 0.1 (congestion_ratio e * 0.95)\<rparr>"

definition signal_edge :: "edge \<Rightarrow> edge" where
  "signal_edge e =
     e\<lparr>congestion_ratio := max 0.1 (congestion_ratio e * congestion_reduction_network),
       travel_time := travel_time e / speed_improvement\<rparr>"

text \<open>
  The reads of the policy parameters, each with its default. \<open>primary_edges\<close> is
  a Python set built from the selected list; the model keeps the list. The loops over
  the set write to different edges, so the order in which the set is walked does not
  show in the result.
\<close>

definition get_policy_type :: "policy_params \<Rightarrow> string" where
  "get_policy_type pp = (case policy_type pp of None \<Rightarrow> ''road_closure'' | Some t \<Rightarrow> t)"

definition get_keywords :: "(string \<Rightarrow> string) \<Rightarrow> policy_params \<Rightarrow> string list" where
  "get_keywords lw pp =
     map lw (case affected_road_keywords pp of None \<Rightarrow> [] | Some ks \<Rightarrow> ks)"

definition get_affected_pct :: "policy_params \<Rightarrow> real" where
  "get_affected_pct pp =
     fdiv (case estimated_affected_edges_pct pp of None \<Rightarrow> 5 | Some p \<Rightarrow> p) 100"

definition get_scope :: "policy_params \<Rightarrow> string" where
  "get_scope pp = (case scope pp of None \<Rightarrow> ''local'' | Some s \<Rightarrow> s)"

definition target_count :: "graph_data \<Rightarrow> policy_params \<Rightarrow> nat" where
  "target_count g pp = target_count_of (length (edges g)) (get_affected_pct pp)"

definition primary_edges ::
  "(string \<Rightarrow> string) \<Rightarrow> graph_data \<Rightarrow> policy_params \<Rightarrow> edge_id list" where
  "primary_edges lw g pp =
     select_primary_edges lw (edges g) (get_keywords lw pp) (target_count g pp)"

text \<open>\<open>[eid for eid in edges if eid not in primary_edges]\<close>\<close>

definition other_edges :: "edge_dict \<Rightarrow> edge_id list \<Rightarrow> edge_id list" where
  "other_edges es primary = filter (\<lambda>eid. eid \<notin> set primary) (edge_ids es)"

text \<open>
  \<open>rng.choice(other_edges, size=spill_count, replace=False)\<close> of the generator seeded
  with 42 is the parameter \<open>choice\<close>: a fixed function of the list and the size.
\<close>

definition spill_over ::
  "(edge_id list \<Rightarrow> nat \<Rightarrow> edge_id list) \<Rightarrow> nat \<Rightarrow> edge_id list \<Rightarrow> edge_dict \<Rightarrow> py_error + edge_dict" where
  "spill_over choice tc primary es =
     (let others = other_edges es primary;
          spill_count = min (length others) (tc * 3);
          spill_edges = choice others spill_count
      in update_edges spill_edge spill_edges es)"

definition apply_effects ::
  "(string \<Rightarrow> string) \<Rightarrow> (edge_id list \<Rightarrow> nat \<Rightarrow> edge_id list) \<Rightarrow> graph_data \<Rightarrow> policy_params
     \<Rightarrow> py_error + edge_dict" where
  "apply_effects lw choice g pp =
     (let ptype = get_policy_type pp;
          primary = primary_edges lw g pp;
          es = edges g
      in if ptype = ''road_closure'' then
           (case update_edges close_edge primary es of
              Inl err \<Rightarrow> Inl err
            | Inr es1 \<Rightarrow> spill_over choice (target_count g pp) primary es1)
         else if ptype = ''new_route'' \<or> ptype = ''transit_add'' then
           (case update_edges (corridor_edge ptype) primary es of
              Inl err \<Rightarrow> Inl err
            | Inr es1 \<Rightarrow>
                if get_scope pp = ''network-wide'' then
                  update_edges network_wide_edge (other_edges es1 primary) es1
                else Inr es1)
         else if ptype = ''signal_timing'' then
           update_edges signal_edge (edge_ids es) es
         else Inr es)"

text \<open>
  \<open>_apply_policy_to_graph\<close>. The deep copy of the input is the value \<open>g\<close> itself;
  the result is the changed copy.
\<close>

definition apply_policy_to_graph ::
  "(string \<Rightarrow> string) \<Rightarrow> (edge_id list \<Rightarrow> nat \<Rightarrow> edge_id list) \<Rightarrow> graph_data \<Rightarrow> policy_params
     \<Rightarrow> py_error + graph_data" where
  "apply_policy_to_graph lw choice g pp =
     (case apply_effects lw choice g pp of
        Inl err \<Rightarrow> Inl err
      | Inr es' \<Rightarrow>
          Inr (g\<lparr>edges := es',
                 policy_applied := Some (get_policy_type pp),
                 primary_affected_edges := Some (primary_edges lw g pp)\<rparr>))"

text \<open>
  The contract of \<open>Generator.choice(a, size=k, replace=False)\<close> on a list without
  repetitions: \<open>k\<close> different elements of the list.
\<close>

definition sample_without_replacement :: "(edge_id list \<Rightarrow> nat \<Rightarrow> edge_id list) \<Rightarrow> bool" where
  "sample_without_replacement choice =
     (\<forall>xs k. distinct xs \<and> k \<le> length xs \<longrightarrow>
        distinct (choice xs k) \<and> set (choice xs k) \<subseteq> set xs \<and> length (choice xs k) = k)"

text \<open>The spillover sample that a closure draws on the state \<open>g\<close>.\<close>

definition spill_edges ::
  "(string \<Rightarrow> string) \<Rightarrow> (edge_id list \<Rightarrow> nat \<Rightarrow> edge_id list) \<Rightarrow> graph_data \<Rightarrow> policy_params
     \<Rightarrow> edge_id list" where
  "spill_edges lw choice g pp =
     (let others = other_edges (edges g) (primary_edges lw g pp)
      in choice others (min (length others) (target_count g pp * 3)))"

subsection \<open>The caller's view: graph states as objects in a store\<close>

text \<open>
  The store holds the graph-state objects, an object's address being its index
  (below the length of the store). \<open>copy.deepcopy\<close> allocates a new object equal
  to the one copied; every write of \<open>_apply_policy_to_graph\<close> goes to that new
  object, whose address is returned.
\<close>

type_synonym store = "graph_data list"

definition deepcopy :: "store \<Rightarrow> nat \<Rightarrow> store \<times> nat" where
  "deepcopy st a = (st @ [st ! a], length st)"

definition apply_policy_to_graph_st ::
  "(string \<Rightarrow> string) \<Rightarrow> (edge_id list \<Rightarrow> nat \<Rightarrow> edge_id list) \<Rightarrow> store \<Rightarrow> nat
     \<Rightarrow> policy_params \<Rightarrow> py_error + (store \<times> nat)" where
  "apply_policy_to_graph_st lw choice st graph_data pp =
     (let (st1, modified) = deepcopy st graph_data
      in case apply_policy_to_graph lw choice (st1 ! modified) pp of
           Inl err \<Rightarrow> Inl err
         | Inr g' \<Rightarrow> Inr (st1[modified := g'], modified))"

text \<open>The attributes of an edge that no policy effect writes.\<close>

definition static_part :: "edge \<Rightarrow> edge" where
  "static_part e =
     e\<lparr>congestion_ratio := 0, baseline_flow := 0, travel_time := 0, closed := None\<rparr>"

section \<open>The selection rule in the words of the specification\<close>

text \<open>
  The selection as the specification words it: the edges whose name or road class
  contains a keyword, both sides in lower case, in graph order; then the remaining
  edges by descending congestion ratio; of this list the first \<open>tc\<close> entries, the
  remaining edges being used only when fewer than \<open>tc\<close> edges matched.
\<close>

definition raw_keywords :: "policy_params \<Rightarrow> string list" where
  "raw_keywords pp = (case affected_road_keywords pp of None \<Rightarrow> [] | Some ks \<Rightarrow> ks)"

definition raw_pct :: "policy_params \<Rightarrow> real" where
  "raw_pct pp = (case estimated_affected_edges_pct pp of None \<Rightarrow> 5 | Some p \<Rightarrow> p)"

definition spec_keyword_match :: "(string \<Rightarrow> string) \<Rightarrow> string list \<Rightarrow> edge \<Rightarrow> bool" where
  "spec_keyword_match lw kws e =
     (\<exists>kw \<in> set kws. sublist (lw kw) (lw (name e)) \<or> sublist (lw kw) (lw (highway e)))"

definition spec_matching ::
  "(string \<Rightarrow> string) \<Rightarrow> graph_data \<Rightarrow> policy_params \<Rightarrow> edge_id list" where
  "spec_matching lw g pp =
     map fst (filter (\<lambda>(eid, e). spec_keyword_match lw (raw_keywords pp) e) (edges g))"

definition spec_remaining :: "(string \<Rightarrow> string) \<Rightarrow> graph_data \<Rightarrow> policy_params \<Rightarrow> edge_dict" where
  "spec_remaining lw g pp =
     filter (\<lambda>(eid, e). eid \<notin> set (spec_matching lw g pp)) (edges g)"

definition spec_remaining_desc ::
  "(string \<Rightarrow> string) \<Rightarrow> graph_data \<Rightarrow> policy_params \<Rightarrow> edge_dict" where
  "spec_remaining_desc lw g pp =
     sort_key (\<lambda>(eid, e). - congestion_ratio e) (spec_remaining lw g pp)"

definition spec_primary_edges ::
  "(string \<Rightarrow> string) \<Rightarrow> nat \<Rightarrow> graph_data \<Rightarrow> policy_params \<Rightarrow> edge_id list" where
  "spec_primary_edges lw tc g pp =
     take tc
       (spec_matching lw g pp @
        (if length (spec_matching lw g pp) < tc
         then take (tc - length (spec_matching lw g pp)) (map fst (spec_remaining_desc lw g pp))
         else []))"

text \<open>The target count with \<open>round\<close>, as the specification has it.\<close>

definition spec_target_count :: "graph_data \<Rightarrow> policy_params \<Rightarrow> nat" where
  "spec_target_count g pp =
     nat (max 1 (round_half_even
                   (fmul (float_of_int (int (length (edges g)))) (fdiv (raw_pct pp) 100))))"

section \<open>The metrics and the composite in the words of the specification\<close>

text \<open>
  The network statistics before the final rounding, as the specification gives
  them, each operation in binary64 and in the order the aggregator applies them.
\<close>

definition spec_avg_congestion :: "(real list \<Rightarrow> real) \<Rightarrow> graph_data \<Rightarrow> real" where
  "spec_avg_congestion np_mean g = np_mean (map (\<lambda>(eid, e). congestion_ratio e) (edges g))"

definition spec_severe_pct :: "graph_data \<Rightarrow> real" where
  "spec_severe_pct g =
     fmul (fdiv (real (length (filter (\<lambda>(eid, e). py_float 0.8 < congestion_ratio e) (edges g))))
             (real (length (edges g))))
       100"

definition spec_avg_travel_time_min :: "(real list \<Rightarrow> real) \<Rightarrow> graph_data \<Rightarrow> real" where
  "spec_avg_travel_time_min np_mean g =
     fdiv (np_mean (map (\<lambda>(eid, e). travel_time e) (edges g))) 60"

definition spec_total_flow :: "graph_data \<Rightarrow> int" where
  "spec_total_flow g = (\<Sum>(eid, e) \<leftarrow> edges g. baseline_flow e)"

definition spec_daily_co2 :: "(real list \<Rightarrow> real) \<Rightarrow> graph_data \<Rightarrow> real" where
  "spec_daily_co2 np_mean g =
     fmul (fmul (fmul (float_of_int (spec_total_flow g))
                   (fdiv (np_mean (map (\<lambda>(eid, e). length_m e) (edges g))) 1000))
             (py_float 0.21))
       8"

definition spec_economic_loss :: "(real list \<Rightarrow> real) \<Rightarrow> graph_data \<Rightarrow> real" where
  "spec_economic_loss np_mean g =
     fmul (fmul (fmul (float_of_int (spec_total_flow g))
                   (fdiv (fmul (spec_avg_travel_time_min np_mean g)
                            (max 0 (fsub (spec_avg_congestion np_mean g) (py_float 0.4))))
                      60))
             50)
       8"

text \<open>
  The population-weighted mean of the impact scores, a missing score or population
  counting as 0.
\<close>

definition spec_satisfaction :: "citizen_profile list \<Rightarrow> real" where
  "spec_satisfaction ps =
     (\<Sum>p \<leftarrow> ps. get_impact_score p * get_affected_population 0 p)
       / (\<Sum>p \<leftarrow> ps. get_affected_population 0 p)"

section \<open>Example states\<close>

definition example_edge :: "string \<Rightarrow> string \<Rightarrow> int \<Rightarrow> real \<Rightarrow> real \<Rightarrow> edge" where
  "example_edge nm hw fl cr tt =
     \<lparr>u_node = 1, v_node = 2, key = 0, length_m = 1000, highway = hw, name = nm,
      capacity = 1000, speed_kph = 30, baseline_flow = fl, congestion_ratio = cr,
      travel_time = tt, geometry = None, closed = None\<rparr>"

definition example_graph :: "edge_dict \<Rightarrow> graph_data" where
  "example_graph es =
     \<lparr>nodes = [(1, 0, 0), (2, 1, 1)], edges = es, node_count = 2, edge_count = length es,
      policy_applied = None, primary_affected_edges = None\<rparr>"

definition example_params :: "string option \<Rightarrow> string list \<Rightarrow> string \<Rightarrow> real \<Rightarrow> policy_params" where
  "example_params ptype kws sc pct =
     \<lparr>policy_type = ptype, affected_area = None, affected_road_keywords = Some kws,
      scope = Some sc, description_for_report = None,
      estimated_affected_edges_pct = Some pct\<rparr>"

text \<open>Three roads, one of them nearly empty.\<close>

definition g3 :: graph_data where
  "g3 = example_graph
     [(''1-2-0'', example_edge ''MG Road'' ''primary'' 500 0.5 120),
      (''2-3-0'', example_edge ''Canal St'' ''residential'' 300 0.9 60),
      (''3-4-0'', example_edge ''Hill Rd'' ''primary'' 100 0.05 30)]"

text \<open>Seven unnamed roads.\<close>

definition g7 :: graph_data where
  "g7 = example_graph
     [(''e1'', example_edge [] ''residential'' 500 0.5 60),
      (''e2'', example_edge [] ''residential'' 600 0.6 60),
      (''e3'', example_edge [] ''residential'' 900 0.9 60),
      (''e4'', example_edge [] ''residential'' 400 0.4 60),
      (''e5'', example_edge [] ''residential'' 700 0.7 60),
      (''e6'', example_edge [] ''residential'' 450 0.45 60),
      (''e7'', example_edge [] ''residential'' 550 0.55 60)]"

text \<open>
  Two roads and a single road, all values doubles whose sums are exact, and a mean
  that adds from the left: on these values every order of addition gives the same
  sum.
\<close>

definition g2 :: graph_data where
  "g2 = example_graph
     [(''1-2-0'', example_edge ''MG Road'' ''primary'' 100 0.5 60),
      (''2-3-0'', example_edge ''Canal St'' ''residential'' 200 1 180)]"

definition g1 :: graph_data where
  "g1 = example_graph [(''1-2-0'', example_edge ''MG Road'' ''primary'' 1 0.5 60)]"

definition seq_mean :: "real list \<Rightarrow> real" where
  "seq_mean xs = fdiv (foldl fadd 0 xs) (real (length xs))"

text \<open>Citizen profiles: with all fields, and one that lacks its population.\<close>

definition example_profile :: "string \<Rightarrow> real \<Rightarrow> real option \<Rightarrow> citizen_profile" where
  "example_profile grp sc pop =
     \<lparr>group = Some grp, impact_score = Some sc, impact_sentiment = Some ''mixed'',
      key_concern = Some [], affected_population = pop\<rparr>"

section \<open>Evaluating binary64 arithmetic\<close>

lemma binade_numeral:
  "binade (numeral k) x =
     (if 2 \<le> x then binade (pred_numeral k) (x / 2) + 1
      else if x < 1 then binade (pred_numeral k) (x * 2) - 1
      else 0)"
  by (simp add: numeral_eq_Suc)

lemma round_half_even_unfold:
  "round_half_even x =
     (if x - of_int \<lfloor>x\<rfloor> < 1 / 2 then \<lfloor>x\<rfloor>
      else if 1 / 2 < x - of_int \<lfloor>x\<rfloor> then \<lfloor>x\<rfloor> + 1
      else if even \<lfloor>x\<rfloor> then \<lfloor>x\<rfloor> else \<lfloor>x\<rfloor> + 1)"
  by (simp add: round_half_even_def Let_def)

lemma double_round_unfold:
  "double_round x =
     (if x = 0 then 0
      else of_int (round_half_even (x / two_to (double_exponent x - 52)))
             * two_to (double_exponent x - 52))"
  by (simp add: double_round_def Let_def)

lemmas float_defs = double_round_unfold double_exponent_def two_to_def binade_numeral
  round_half_even_unfold py_float_def float_of_int_def fsub_def fmul_def fdiv_def fadd_def
  py_round_def py_int_def

text \<open>
  The literals 0.1 and 0.29 and the product \<open>100 * 0.29\<close> as doubles; a value
  with few bits is kept; a value halfway between two doubles goes to the one with
  the even significand.
\<close>

lemma double_round_examples:
  "py_float 0.1 = 3602879701896397 / 36028797018963968"
  "py_float 0.29 = 5224175567749775 / 18014398509481984"
  "fmul 100 (py_float 0.29) = 8162774324609023 / 281474976710656"
  "double_round (1 / 4) = 1 / 4"
  "double_round (- 1 / 3) = - double_round (1 / 3)"
  "double_round (1 + 1 / 2 ^ 53) = 1"
  "double_round (1 + 3 / 2 ^ 53) = 1 + 1 / 2 ^ 51"
  by (simp_all add: float_defs)

section \<open>Binary64 rounding is a rounding\<close>

text \<open>
  The exponent search finds the binade of its argument, and \<open>double_round\<close> moves a
  number in the normal range by at most the fraction \<open>2 ^ -53\<close> of its magnitude.
\<close>

lemma two_to_powi: "two_to e = 2 powi e"
  by (simp add: two_to_def power_int_def power_one_over)

lemma binade_unit: "1 \<le> y \<Longrightarrow> y < 2 \<Longrightarrow> binade n y = 0"
  by (cases n) auto

lemma binade_bounds:
  "2 powi (- int n) \<le> x \<Longrightarrow> x < 2 powi (int n) \<Longrightarrow>
   2 powi (binade n x) \<le> x \<and> x < 2 powi (binade n x + 1)"
proof (induction n arbitrary: x)
  case 0
  then show ?case by simp
next
  case (Suc n)
  have pos: "0 < x" using Suc.prems(1) by (smt (verit) zero_less_power_int zero_less_numeral)
  consider (big) "2 \<le> x" | (small) "x < 1" | (unit) "1 \<le> x" "x < 2" by linarith
  then show ?case
  proof cases
    case unit
    then show ?thesis by simp
  next
    case big
    show ?thesis
    proof (cases "x / 2 < 2")
      case True
      with big have "binade n (x / 2) = 0" by (intro binade_unit) auto
      with big True show ?thesis by simp
    next
      case False
      have "2 powi (- int n) \<le> (1 :: real)"
        by (simp add: power_int_minus inverse_le_1_iff one_le_power)
      with big have lo: "2 powi (- int n) \<le> x / 2" by linarith
      have "x < 2 powi (int n + 1)" using Suc.prems(2) by (simp add: add.commute)
      then have hi: "x / 2 < 2 powi (int n)"
        by (simp add: power_int_add)
      have "(2 :: real) powi (binade n (x / 2) + 1 + 1) = 2 * 2 powi (binade n (x / 2) + 1)"
        "(2 :: real) powi (binade n (x / 2) + 1) = 2 * 2 powi (binade n (x / 2))"
        by (simp_all add: power_int_add)
      with Suc.IH [OF lo hi] big show ?thesis
        by simp
    qed
  next
    case small
    show ?thesis
    proof (cases "1 \<le> x * 2")
      case True
      with small have "binade n (x * 2) = 0" by (intro binade_unit) auto
      with small True show ?thesis by (simp add: power_int_minus)
    next
      case False
      have eq: "- int (Suc n) = - int n - 1" by simp
      have "2 powi (- int n - 1) \<le> x" using Suc.prems(1) unfolding eq .
      then have lo: "2 powi (- int n) \<le> x * 2"
        by (simp add: power_int_diff)
      have "(1 :: real) \<le> 2 powi (int n)" by (simp add: one_le_power)
      with False have hi: "x * 2 < 2 powi (int n)" by linarith
      have "(2 :: real) powi (binade n (x * 2) + 1) = 2 * 2 powi (binade n (x * 2))"
        "(2 :: real) powi (binade n (x * 2) - 1) = 2 powi (binade n (x * 2)) / 2"
        by (simp_all add: power_int_add power_int_diff)
      with Suc.IH [OF lo hi] small show ?thesis
        by simp
    qed
  qed
qed


lemma round_half_even_error: "\<bar>real_of_int (round_half_even x) - x\<bar> \<le> 1 / 2"
  by (auto simp: round_half_even_def Let_def)

lemma double_round_spacing:
  "\<bar>double_round x - x\<bar> \<le> 2 powi (double_exponent x - 52) / 2"
proof (cases "x = 0")
  case True
  then show ?thesis by (simp add: double_round_def)
next
  case False
  define u :: real where "u = 2 powi (double_exponent x - 52)"
  have u: "0 < u" by (simp add: u_def)
  have "double_round x - x = (real_of_int (round_half_even (x / u)) - x / u) * u"
    using False u by (simp add: double_round_def Let_def two_to_powi u_def field_simps)
  then have "\<bar>double_round x - x\<bar> = \<bar>real_of_int (round_half_even (x / u)) - x / u\<bar> * u"
    using u by (simp add: abs_mult)
  also have "\<dots> \<le> (1 / 2) * u"
    using u by (intro mult_right_mono round_half_even_error) simp
  finally show ?thesis by (simp add: u_def)
qed

lemma double_round_error:
  assumes "2 powi (- 1022) \<le> \<bar>x\<bar>" and "\<bar>x\<bar> < 2 powi 1024"
  shows "\<bar>double_round x - x\<bar> \<le> \<bar>x\<bar> / 2 ^ 53"
proof -
  define e where "e = binade 2100 \<bar>x\<bar>"
  have "(2 :: real) powi (- int 2100) \<le> 2 powi (- 1022)"
    by (intro power_int_increasing) simp_all
  with assms(1) have lo: "2 powi (- int 2100) \<le> \<bar>x\<bar>" by linarith
  have "(2 :: real) powi 1024 \<le> 2 powi (int 2100)"
    by (intro power_int_increasing) simp_all
  with assms(2) have hi: "\<bar>x\<bar> < 2 powi (int 2100)" by linarith
  from binade_bounds [OF lo hi] have b: "2 powi e \<le> \<bar>x\<bar>" "\<bar>x\<bar> < 2 powi (e + 1)"
    by (simp_all add: e_def)
  have lt: "(2 :: real) powi (- 1022) < 2 powi (e + 1)"
    using assms(1) b(2) by linarith
  have "- 1022 < e + 1"
  proof (rule ccontr)
    assume "\<not> - 1022 < e + 1"
    then have "e + 1 \<le> - 1022" by simp
    then have "(2 :: real) powi (e + 1) \<le> 2 powi (- 1022)"
      by (intro power_int_increasing) simp_all
    with lt show False by linarith
  qed
  then have de: "double_exponent x = e"
    by (simp add: double_exponent_def e_def [symmetric])
  have "(2 :: real) powi (e - 52) / 2 = 2 powi e / 2 ^ 53"
    by (simp add: power_int_diff)
  also have "\<dots> \<le> \<bar>x\<bar> / 2 ^ 53"
    using b(1) by (intro divide_right_mono) simp_all
  finally show ?thesis
    using double_round_spacing [of x] by (simp add: de)
qed


section \<open>Severity buckets and percentage change\<close>

text \<open>
  Claim C4, as the code has it: for a lower-is-better metric the buckets are cut by
  strict comparisons at -15, -5, 5 and 15. A change of exactly -15 is
  \<open>positive\<close>; a change of -15.1 lies below -15 and is \<open>highly_positive\<close>.
\<close>

theorem severity_lower_is_better:
  "(d < - 15 \<longrightarrow> severity d ''lower_is_better'' = ''highly_positive'') \<and>
   (- 15 \<le> d \<and> d < - 5 \<longrightarrow> severity d ''lower_is_better'' = ''positive'') \<and>
   (- 5 \<le> d \<and> d < 5 \<longrightarrow> severity d ''lower_is_better'' = ''neutral'') \<and>
   (5 \<le> d \<and> d < 15 \<longrightarrow> severity d ''lower_is_better'' = ''negative'') \<and>
   (15 \<le> d \<longrightarrow> severity d ''lower_is_better'' = ''highly_negative'') \<and>
   severity (- 15) ''lower_is_better'' = ''positive'' \<and>
   severity (- 15.1) ''lower_is_better'' = ''highly_positive''"
  by (simp add: severity_def)

theorem severity_lower_is_better_witness:
  "(- 20 :: real) < - 15 \<and> severity (- 20) ''lower_is_better'' = ''highly_positive'' \<and>
   (- 15 :: real) \<le> - 10 \<and> (- 10 :: real) < - 5 \<and> severity (- 10) ''lower_is_better'' = ''positive'' \<and>
   (- 5 :: real) \<le> 0 \<and> (0 :: real) < 5 \<and> severity 0 ''lower_is_better'' = ''neutral'' \<and>
   (5 :: real) \<le> 10 \<and> (10 :: real) < 15 \<and> severity 10 ''lower_is_better'' = ''negative'' \<and>
   (15 :: real) \<le> 20 \<and> severity 20 ''lower_is_better'' = ''highly_negative''"
  using severity_lower_is_better [of "- 20"] severity_lower_is_better [of "- 10"]
    severity_lower_is_better [of 0] severity_lower_is_better [of 10]
    severity_lower_is_better [of 20]
  by simp

text \<open>
  Claim C4 as stated has -15.1 classified \<open>highly_negative\<close>; the code does not.
\<close>

theorem severity_minus_15_1_counterexample:
  "severity (- 15.1) ''lower_is_better'' \<noteq> ''highly_negative''"
  by (simp add: severity_def)

text \<open>
  Claim C8: the percentage change raises no division fault; it is 0 when \<open>before\<close>
  is 0, whatever \<open>after\<close> is, and otherwise the relative change times 100, in
  binary64 arithmetic, rounded to one decimal; in particular the change from 0 to 50
  is 0.
\<close>

theorem pct_change_spec:
  "pct_change 0 after = Inr 0 \<and>
   (before \<noteq> 0 \<longrightarrow>
      pct_change before after =
        Inr (py_round (fmul (fdiv (fsub after before) before) 100) 1)) \<and>
   (\<exists>r. pct_change before after = Inr r) \<and>
   pct_change 0 50 = Inr 0"
proof -
  have zero: "pct_change 0 x = Inr 0" for x
    by (simp add: pct_change_def)
  have nonzero: "pct_change before after =
      Inr (py_round (fmul (fdiv (fsub after before) before) 100) 1)" if "before \<noteq> 0"
  proof -
    from that have "py_truediv (fsub after before) before = Inr (fdiv (fsub after before) before)"
      by (simp add: py_truediv_def fdiv_def)
    with that show ?thesis by (simp add: pct_change_def)
  qed
  have "\<exists>r. pct_change before after = Inr r"
    using zero nonzero by (cases "before = 0") auto
  with zero nonzero show ?thesis by blast
qed

text \<open>No change is a change of 0 percent.\<close>

lemma pct_change_unchanged: "pct_change x x = Inr 0"
  by (cases "x = 0")
    (simp_all add: pct_change_def py_truediv_def fsub_def fmul_def py_round_def
      double_round_def round_half_even_def)

theorem pct_change_spec_witness:
  "(3 :: real) \<noteq> 0 \<and> pct_change 3 4 = Inr (py_float 33.3) \<and>
   (2000 :: real) \<noteq> 0 \<and> pct_change 2000 2001 = Inr (py_float 0.1) \<and>
   pct_change 2000 1899 = Inr (py_float (- 5.1)) \<and>
   pct_change 0 4 = Inr 0"
proof -
  have a: "py_round (fmul (fdiv (fsub 4 3) 3) 100) 1 = py_float 33.3"
    by (simp add: float_defs)
  have b: "py_round (fmul (fdiv (fsub 2001 2000) 2000) 100) 1 = py_float 0.1"
    by (simp add: float_defs)
  have c: "py_round (fmul (fdiv (fsub 1899 2000) 2000) 100) 1 = py_float (- 5.1)"
    by (simp add: float_defs)
  show ?thesis
    using pct_change_spec [of 4 3] pct_change_spec [of 2001 2000] pct_change_spec [of 1899 2000]
    by (simp add: a b c del: One_nat_def)
qed

section \<open>Target-edge selection\<close>

lemma contains_sublist: "contains kw s = sublist kw s"
  by (induction s) (auto simp: sublist_Cons_right)

lemma collect_matching_filter:
  "collect_matching lw kws es = map fst (filter (\<lambda>(eid, e). keyword_match lw kws e) es)"
  by (induction es) auto

lemma keyword_match_spec:
  "keyword_match lw (map lw kws) e = spec_keyword_match lw kws e"
  by (auto simp: keyword_match_def spec_keyword_match_def contains_sublist list_ex_iff)

lemma collect_matching_spec:
  "collect_matching lw (get_keywords lw pp) (edges g) = spec_matching lw g pp"
  by (simp add: collect_matching_filter spec_matching_def get_keywords_def raw_keywords_def
      keyword_match_spec)

lemma insort_key_map:
  "insort_key f (h x) (map h xs) = map h (insort_key (\<lambda>y. f (h y)) x xs)"
  by (induction xs) auto

lemma sort_key_map: "sort_key f (map h xs) = map h (sort_key (\<lambda>y. f (h y)) xs)"
  by (induction xs) (auto simp: insort_key_map)

lemma target_count_floor:
  "target_count g pp =
     nat (max 1 \<lfloor>fmul (float_of_int (int (length (edges g)))) (fdiv (raw_pct pp) 100)\<rfloor>)"
proof -
  have "max 1 (py_int x) = max 1 \<lfloor>x\<rfloor>" for x :: real
    by (auto simp: py_int_def max_def)
  then show ?thesis
    by (simp add: target_count_def target_count_of_def get_affected_pct_def raw_pct_def)
qed

lemma sorted_by_congestion_spec:
  "map fst (sorted_reverse snd (map (\<lambda>(eid, e). (eid, congestion_ratio e)) xs)) =
   map fst (sort_key (\<lambda>(eid, e). - congestion_ratio e) xs)"
  by (simp add: sorted_reverse_def sort_key_map case_prod_unfold comp_def)

lemma primary_edges_spec:
  "primary_edges lw g pp = spec_primary_edges lw (target_count g pp) g pp"
  by (simp add: primary_edges_def select_primary_edges_def spec_primary_edges_def
      collect_matching_spec sorted_by_congestion_spec spec_remaining_desc_def
      spec_remaining_def Let_def flip: take_map)

lemma sort_key_desc:
  "sorted_wrt (\<lambda>a b. f b \<le> f a) (sort_key (\<lambda>x. - f x) xs)" for f :: "'a \<Rightarrow> real"
proof -
  have "sorted (map (\<lambda>x. - f x) (sort_key (\<lambda>x. - f x) xs))" by (rule sorted_sort_key)
  then show ?thesis by (simp add: sorted_map)
qed

lemma spec_remaining_desc_sorted:
  "sorted_wrt (\<lambda>a b. congestion_ratio (snd b) \<le> congestion_ratio (snd a))
     (spec_remaining_desc lw g pp)"
  using sort_key_desc [of "\<lambda>x. congestion_ratio (snd x)" "spec_remaining lw g pp"]
  by (simp add: spec_remaining_desc_def case_prod_unfold)

lemmas example_defs = g3_def g7_def example_graph_def example_edge_def example_params_def

lemmas selection_defs = primary_edges_def select_primary_edges_def get_keywords_def
  sorted_reverse_def target_count_def target_count_of_def get_affected_pct_def float_defs
  keyword_match_def ascii_lower_def

lemmas spec_selection_defs = spec_primary_edges_def spec_matching_def spec_remaining_desc_def
  spec_remaining_def spec_keyword_match_def raw_keywords_def spec_target_count_def raw_pct_def
  float_defs ascii_lower_def

text \<open>
  Claim C1, as the code has it: the target count is the larger of 1 and the product
  of the number of edges and the percentage over 100, truncated (not rounded) to an
  integer; quotient and product are binary64 operations, so that 100 edges at 29
  percent give 28. The case-insensitive match compares the lower-case forms that
  \<open>str.lower\<close> gives. The primary edges are the first \<open>target_count\<close> entries of the list that
  starts with the keyword matches in graph order and, when these are fewer than the
  target count, goes on with the remaining edges; the remaining edges stand in
  descending order of congestion ratio and are a rearrangement of the edges that did
  not match.
\<close>

theorem primary_edge_selection:
  "target_count g pp =
     nat (max 1 \<lfloor>fmul (float_of_int (int (length (edges g)))) (fdiv (raw_pct pp) 100)\<rfloor>) \<and>
   primary_edges lw g pp = spec_primary_edges lw (target_count g pp) g pp \<and>
   sorted_wrt (\<lambda>a b. congestion_ratio (snd b) \<le> congestion_ratio (snd a))
     (spec_remaining_desc lw g pp) \<and>
   mset (spec_remaining_desc lw g pp) = mset (spec_remaining lw g pp)"
  by (simp add: target_count_floor [symmetric] primary_edges_spec [symmetric]
      spec_remaining_desc_sorted) (simp add: spec_remaining_desc_def)

theorem primary_edge_selection_witness:
  "target_count g3 (example_params None [''HILL'', ''canal''] ''local'' 70) = 2 \<and>
   primary_edges ascii_lower g3 (example_params None [''HILL'', ''canal''] ''local'' 70) =
     [''2-3-0'', ''3-4-0''] \<and>
   spec_primary_edges ascii_lower 2 g3 (example_params None [''HILL'', ''canal''] ''local'' 70) =
     [''2-3-0'', ''3-4-0''] \<and>
   target_count g7 (example_params None [] ''local'' 25) = 1 \<and>
   spec_primary_edges ascii_lower 1 g7 (example_params None [] ''local'' 25) = [''e3''] \<and>
   target_count_of 100 (get_affected_pct (example_params None [] ''local'' 29)) = 28"
proof -
  have a: "target_count g3 (example_params None [''HILL'', ''canal''] ''local'' 70) = 2"
    by (simp add: selection_defs example_defs)
  have b: "target_count g7 (example_params None [] ''local'' 25) = 1"
    by (simp add: selection_defs example_defs)
  have c: "primary_edges ascii_lower g3 (example_params None [''HILL'', ''canal''] ''local'' 70) =
      [''2-3-0'', ''3-4-0'']"
    by (simp add: selection_defs example_defs)
  have d: "primary_edges ascii_lower g7 (example_params None [] ''local'' 25) = [''e3'']"
    by (simp add: selection_defs example_defs)
  have e: "target_count_of 100 (get_affected_pct (example_params None [] ''local'' 29)) = 28"
    by (simp add: selection_defs example_defs)
  show ?thesis
    using primary_edge_selection [where g = g3 and lw = ascii_lower
          and pp = "example_params None [''HILL'', ''canal''] ''local'' 70"]
      primary_edge_selection [where g = g7 and lw = ascii_lower
          and pp = "example_params None [] ''local'' 25"]
    by (simp add: a b c d e)
qed

text \<open>
  Claim C1 as stated rounds the product: seven edges at 25 percent give 1.75, which
  the specification's rule turns into two primary edges and the code into one.
\<close>

theorem primary_edge_selection_counterexample:
  "target_count g7 (example_params None [] ''local'' 25) = 1 \<and>
   spec_target_count g7 (example_params None [] ''local'' 25) = 2 \<and>
   set (primary_edges ascii_lower g7 (example_params None [] ''local'' 25)) = {''e3''} \<and>
   set (spec_primary_edges ascii_lower (spec_target_count g7 (example_params None [] ''local'' 25)) g7
          (example_params None [] ''local'' 25)) = {''e3'', ''e5''} \<and>
   set (primary_edges ascii_lower g7 (example_params None [] ''local'' 25)) \<noteq>
   set (spec_primary_edges ascii_lower (spec_target_count g7 (example_params None [] ''local'' 25)) g7
          (example_params None [] ''local'' 25))"
proof -
  have a: "spec_target_count g7 (example_params None [] ''local'' 25) = 2"
    by (simp add: spec_selection_defs example_defs)
  have b: "target_count g7 (example_params None [] ''local'' 25) = 1"
    by (simp add: selection_defs example_defs)
  have c: "primary_edges ascii_lower g7 (example_params None [] ''local'' 25) = [''e3'']"
    by (simp add: selection_defs example_defs)
  have d: "spec_primary_edges ascii_lower 2 g7 (example_params None [] ''local'' 25) = [''e3'', ''e5'']"
    by (simp add: spec_selection_defs example_defs)
  show ?thesis
    by (simp add: a b c d)
qed

section \<open>Writes to the edge dict\<close>

lemma map_fst_update: "map fst (map (\<lambda>(k, x). if P k then (k, f x) else (k, x)) es) = map fst es"
  by (induction es) auto

lemma update_edges_Inr:
  "distinct eids \<Longrightarrow> set eids \<subseteq> set (map fst es) \<Longrightarrow>
   update_edges f eids es =
     Inr (map (\<lambda>(k, x). if k \<in> set eids then (k, f x) else (k, x)) es)"
proof (induction eids arbitrary: es)
  case Nil
  then show ?case by (simp add: case_prod_unfold)
next
  case (Cons eid eids)
  let ?es1 = "map (\<lambda>(k, x). if k = eid then (k, f x) else (k, x)) es"
  from Cons.prems obtain e where e: "map_of es eid = Some e"
    by (cases "map_of es eid") (auto simp: map_of_eq_None_iff)
  have keys: "map fst ?es1 = map fst es" by (induction es) auto
  have "update_edges f eids ?es1 =
      Inr (map (\<lambda>(k, x). if k \<in> set eids then (k, f x) else (k, x)) ?es1)"
    using Cons.prems by (intro Cons.IH) (auto simp: keys simp del: set_map map_map)
  moreover have "map (\<lambda>(k, x). if k \<in> set eids then (k, f x) else (k, x)) ?es1 =
      map (\<lambda>(k, x). if k \<in> set (eid # eids) then (k, f x) else (k, x)) es"
    using Cons.prems(1) by (induction es) auto
  ultimately show ?case using e by simp
qed

lemma map_of_update:
  "map_of (map (\<lambda>(k, x). if P k then (k, f x) else (k, x)) es) k =
     (case map_of es k of None \<Rightarrow> None | Some x \<Rightarrow> Some (if P k then f x else x))"
  by (induction es) auto

lemma spec_matching_distinct: "is_dict (edges g) \<Longrightarrow> distinct (spec_matching lw g pp)"
  by (simp add: spec_matching_def is_dict_def edge_ids_def distinct_map_filter)

lemma spec_remaining_desc_distinct:
  "is_dict (edges g) \<Longrightarrow> distinct (map fst (spec_remaining_desc lw g pp))"
  by (simp add: spec_remaining_desc_def spec_remaining_def is_dict_def edge_ids_def
      distinct_map distinct_map_filter inj_on_def)

lemma spec_remaining_desc_set:
  "set (map fst (spec_remaining_desc lw g pp)) = set (edge_ids (edges g)) - set (spec_matching lw g pp)"
  by (auto simp: spec_remaining_desc_def spec_remaining_def edge_ids_def image_iff)

lemma primary_edges_distinct:
  assumes "is_dict (edges g)"
  shows "distinct (primary_edges lw g pp)"
proof -
  have "distinct (spec_matching lw g pp @ take n (map fst (spec_remaining_desc lw g pp)))" for n
    using spec_matching_distinct [OF assms] spec_remaining_desc_distinct [OF assms]
      spec_remaining_desc_set [of lw g pp]
    by (auto dest!: in_set_takeD)
  then show ?thesis
    using spec_matching_distinct [OF assms]
    by (auto simp: primary_edges_spec spec_primary_edges_def)
qed

lemma primary_edges_subset: "set (primary_edges lw g pp) \<subseteq> set (edge_ids (edges g))"
proof -
  have a: "set (spec_matching lw g pp) \<subseteq> set (edge_ids (edges g))"
    by (auto simp: spec_matching_def edge_ids_def)
  have b: "set (map fst (spec_remaining_desc lw g pp)) \<subseteq> set (edge_ids (edges g))"
    using spec_remaining_desc_set [of lw g pp] by blast
  have "set (primary_edges lw g pp) \<subseteq>
      set (spec_matching lw g pp) \<union> set (map fst (spec_remaining_desc lw g pp))"
    unfolding primary_edges_spec spec_primary_edges_def
    by (auto dest!: in_set_takeD)
  with a b show ?thesis by blast
qed

section \<open>Road closure\<close>

lemma other_edges_set:
  "set (other_edges es primary) = set (edge_ids es) - set primary"
  by (auto simp: other_edges_def)

lemma other_edges_distinct: "is_dict es \<Longrightarrow> distinct (other_edges es primary)"
  by (simp add: other_edges_def is_dict_def)

lemma spill_edges_props:
  assumes "is_dict (edges g)" and "sample_without_replacement choice"
  shows "distinct (spill_edges lw choice g pp) \<and>
         set (spill_edges lw choice g pp) \<subseteq> set (edge_ids (edges g)) - set (primary_edges lw g pp) \<and>
         length (spill_edges lw choice g pp) =
           min (3 * target_count g pp) (card (set (edge_ids (edges g)) - set (primary_edges lw g pp)))"
proof -
  let ?others = "other_edges (edges g) (primary_edges lw g pp)"
  let ?k = "min (length ?others) (target_count g pp * 3)"
  have d: "distinct ?others" using assms(1) by (rule other_edges_distinct)
  have k: "?k \<le> length ?others" by simp
  from assms(2) d k have
    "distinct (choice ?others ?k) \<and> set (choice ?others ?k) \<subseteq> set ?others \<and>
     length (choice ?others ?k) = ?k"
    unfolding sample_without_replacement_def by blast
  moreover have "length ?others = card (set (edge_ids (edges g)) - set (primary_edges lw g pp))"
    using distinct_card [OF d] by (simp add: other_edges_set)
  ultimately show ?thesis
    by (simp add: spill_edges_def Let_def other_edges_set min.commute mult.commute)
qed

lemma edge_ids_update:
  "edge_ids (map (\<lambda>(k, x). if P k then (k, f x) else (k, x)) es) = edge_ids es"
  unfolding edge_ids_def by (rule map_fst_update)

lemma apply_effects_road_closure:
  assumes "is_dict (edges g)" and "sample_without_replacement choice"
    and "get_policy_type pp = ''road_closure''"
  shows "apply_effects lw choice g pp =
     Inr (map (\<lambda>(k, x). if k \<in> set (spill_edges lw choice g pp) then (k, spill_edge x) else (k, x))
           (map (\<lambda>(k, x). if k \<in> set (primary_edges lw g pp) then (k, close_edge x) else (k, x))
              (edges g)))"
proof -
  let ?es1 = "map (\<lambda>(k, x). if k \<in> set (primary_edges lw g pp) then (k, close_edge x) else (k, x))
              (edges g)"
  have 1: "update_edges close_edge (primary_edges lw g pp) (edges g) = Inr ?es1"
    using primary_edges_distinct [OF assms(1)] primary_edges_subset [of lw g pp]
    by (intro update_edges_Inr) (simp_all add: edge_ids_def)
  have ids: "edge_ids ?es1 = edge_ids (edges g)" by (rule edge_ids_update)
  have others: "other_edges ?es1 (primary_edges lw g pp) = other_edges (edges g) (primary_edges lw g pp)"
    by (simp add: other_edges_def ids)
  have sp: "distinct (spill_edges lw choice g pp)"
    "set (spill_edges lw choice g pp) \<subseteq> set (map fst ?es1)"
    using spill_edges_props [OF assms(1,2), where lw = lw and pp = pp] ids by (auto simp: edge_ids_def)
  have 2: "spill_over choice (target_count g pp) (primary_edges lw g pp) ?es1 =
      Inr (map (\<lambda>(k, x). if k \<in> set (spill_edges lw choice g pp) then (k, spill_edge x) else (k, x)) ?es1)"
    using update_edges_Inr [OF sp, of spill_edge]
    by (simp add: spill_over_def others spill_edges_def Let_def)
  show ?thesis
    using assms(3) by (simp add: apply_effects_def 1 2 Let_def)
qed

lemma map_of_in_ids: "eid \<in> set (edge_ids es) \<Longrightarrow> \<exists>e. map_of es eid = Some e"
  by (cases "map_of es eid") (auto simp: map_of_eq_None_iff edge_ids_def)

text \<open>
  Claim C2: under a closure the applier returns a state with the same edge ids in
  which every primary edge has congestion ratio 0, baseline flow 0 and the closed
  flag set; the spillover sample consists of different non-primary edges, as many
  as the smaller of three times the target count and the number of non-primary
  edges, each with its ratio multiplied by 1.35 and capped at 1; every other edge
  is as before. The sample is drawn by the seeded generator, a fixed function here;
  that its draw is uniform is outside this model.
\<close>

theorem road_closure_effect:
  assumes "is_dict (edges g)" and "sample_without_replacement choice"
    and "get_policy_type pp = ''road_closure''"
  shows "\<exists>g'. apply_policy_to_graph lw choice g pp = Inr g' \<and>
     edge_ids (edges g') = edge_ids (edges g) \<and>
     (\<forall>eid \<in> set (primary_edges lw g pp). \<exists>e.
        map_of (edges g) eid = Some e \<and>
        map_of (edges g') eid =
          Some (e\<lparr>congestion_ratio := 0, baseline_flow := 0, closed := Some True\<rparr>)) \<and>
     distinct (spill_edges lw choice g pp) \<and>
     set (spill_edges lw choice g pp) \<subseteq> set (edge_ids (edges g)) - set (primary_edges lw g pp) \<and>
     length (spill_edges lw choice g pp) =
       min (3 * target_count g pp) (card (set (edge_ids (edges g)) - set (primary_edges lw g pp))) \<and>
     (\<forall>eid \<in> set (spill_edges lw choice g pp). \<exists>e.
        map_of (edges g) eid = Some e \<and>
        map_of (edges g') eid =
          Some (e\<lparr>congestion_ratio := min 1 (congestion_ratio e * 1.35)\<rparr>)) \<and>
     (\<forall>eid. eid \<notin> set (primary_edges lw g pp) \<and> eid \<notin> set (spill_edges lw choice g pp) \<longrightarrow>
        map_of (edges g') eid = map_of (edges g) eid)"
proof -
  let ?P = "primary_edges lw g pp" and ?S = "spill_edges lw choice g pp"
  define es' where "es' = map (\<lambda>(k, x). if k \<in> set ?S then (k, spill_edge x) else (k, x))
           (map (\<lambda>(k, x). if k \<in> set ?P then (k, close_edge x) else (k, x)) (edges g))"
  define g' where "g' = g\<lparr>edges := es', policy_applied := Some (get_policy_type pp),
               primary_affected_edges := Some ?P\<rparr>"
  have res: "apply_policy_to_graph lw choice g pp = Inr g'"
    by (simp add: apply_policy_to_graph_def apply_effects_road_closure [OF assms] g'_def es'_def)
  have eg: "edges g' = es'" by (simp add: g'_def)
  have ids: "edge_ids (edges g') = edge_ids (edges g)"
    unfolding eg es'_def by (simp only: edge_ids_update)
  note sp = spill_edges_props [OF assms(1,2), where lw = lw and pp = pp]
  have look: "map_of es' eid =
      (case map_of (edges g) eid of None \<Rightarrow> None
       | Some x \<Rightarrow> Some (if eid \<in> set ?P then close_edge x
                          else if eid \<in> set ?S then spill_edge x else x))" for eid
    unfolding es'_def using sp
    by (auto simp add: map_of_update simp del: map_map split: option.splits)
  have prim: "\<exists>e. map_of (edges g) eid = Some e \<and>
        map_of (edges g') eid =
          Some (e\<lparr>congestion_ratio := 0, baseline_flow := 0, closed := Some True\<rparr>)"
    if "eid \<in> set ?P" for eid
  proof -
    from that primary_edges_subset [of lw g pp] obtain e where "map_of (edges g) eid = Some e"
      using map_of_in_ids by blast
    with that show ?thesis by (simp add: eg look close_edge_def)
  qed
  have spill: "\<exists>e. map_of (edges g) eid = Some e \<and>
        map_of (edges g') eid =
          Some (e\<lparr>congestion_ratio := min 1 (congestion_ratio e * 1.35)\<rparr>)"
    if "eid \<in> set ?S" for eid
  proof -
    from that sp obtain e where "map_of (edges g) eid = Some e"
      using map_of_in_ids by blast
    moreover from that sp have "eid \<notin> set ?P" by blast
    ultimately show ?thesis
      using that by (simp add: eg look spill_edge_def congestion_multiplier_surrounding_def)
  qed
  have rest: "map_of (edges g') eid = map_of (edges g) eid"
    if "eid \<notin> set ?P \<and> eid \<notin> set ?S" for eid
    using that by (simp add: eg look split: option.splits)
  from res ids prim spill rest sp show ?thesis by blast
qed

lemmas effect_defs = apply_policy_to_graph_def apply_effects_def spill_over_def other_edges_def
  edge_ids_def get_policy_type_def get_scope_def close_edge_def spill_edge_def corridor_edge_def
  network_wide_edge_def signal_edge_def congestion_multiplier_surrounding_def
  congestion_reduction_corridor_def modal_shift_factor_def congestion_reduction_network_def
  speed_improvement_def spill_edges_def

lemma take_sample: "sample_without_replacement (\<lambda>xs k. take k xs)"
  by (auto simp: sample_without_replacement_def dest: in_set_takeD)

theorem road_closure_effect_witness:
  "is_dict (edges g3) \<and>
   sample_without_replacement (\<lambda>xs k. take k xs) \<and>
   get_policy_type (example_params (Some ''road_closure'') [''hill''] ''local'' 30) = ''road_closure'' \<and>
   primary_edges ascii_lower g3 (example_params (Some ''road_closure'') [''hill''] ''local'' 30) = [''3-4-0''] \<and>
   spill_edges ascii_lower (\<lambda>xs k. take k xs) g3 (example_params (Some ''road_closure'') [''hill''] ''local'' 30) =
     [''1-2-0'', ''2-3-0''] \<and>
   (\<exists>g'. apply_policy_to_graph ascii_lower (\<lambda>xs k. take k xs) g3
           (example_params (Some ''road_closure'') [''hill''] ''local'' 30) = Inr g' \<and>
      map (\<lambda>(k, e). (k, congestion_ratio e, baseline_flow e, closed e)) (edges g') =
        [(''1-2-0'', 0.675, 500, None), (''2-3-0'', 1, 300, None), (''3-4-0'', 0, 0, Some True)])"
proof -
  let ?pp = "example_params (Some ''road_closure'') [''hill''] ''local'' 30"
  have h1: "is_dict (edges g3)" by (simp add: is_dict_def edge_ids_def example_defs)
  have h3: "get_policy_type ?pp = ''road_closure''"
    by (simp add: get_policy_type_def example_params_def)
  have p: "primary_edges ascii_lower g3 ?pp = [''3-4-0'']"
    by (simp add: selection_defs example_defs)
  have t: "target_count g3 ?pp = 1"
    by (simp add: selection_defs example_defs)
  have s: "spill_edges ascii_lower (\<lambda>xs k. take k xs) g3 ?pp = [''1-2-0'', ''2-3-0'']"
    by (simp add: spill_edges_def p t other_edges_def edge_ids_def) (simp add: example_defs)
  have r: "\<exists>g'. apply_policy_to_graph ascii_lower (\<lambda>xs k. take k xs) g3 ?pp = Inr g' \<and>
      map (\<lambda>(k, e). (k, congestion_ratio e, baseline_flow e, closed e)) (edges g') =
        [(''1-2-0'', 0.675, 500, None), (''2-3-0'', 1, 300, None), (''3-4-0'', 0, 0, Some True)]"
    by (simp add: effect_defs selection_defs example_defs)
  show ?thesis
    using road_closure_effect [OF h1 take_sample h3, where lw = ascii_lower] h1 take_sample h3 p s r by blast
qed

section \<open>Corridor policies, signal timing and unrecognized policy types\<close>

lemma is_dict_update:
  "is_dict es \<Longrightarrow> is_dict (map (\<lambda>(k, x). if P k then (k, f x) else (k, x)) es)"
  by (simp only: is_dict_def edge_ids_update)

lemma apply_effects_corridor:
  assumes "is_dict (edges g)"
    and "get_policy_type pp = ''new_route'' \<or> get_policy_type pp = ''transit_add''"
  shows "apply_effects lw choice g pp =
     Inr (map (\<lambda>(k, x). if get_scope pp = ''network-wide'' \<and> k \<notin> set (primary_edges lw g pp)
                          then (k, network_wide_edge x) else (k, x))
           (map (\<lambda>(k, x). if k \<in> set (primary_edges lw g pp)
                            then (k, corridor_edge (get_policy_type pp) x) else (k, x))
              (edges g)))"
proof -
  let ?P = "primary_edges lw g pp"
  define es1 where "es1 = map (\<lambda>(k, x). if k \<in> set ?P
                            then (k, corridor_edge (get_policy_type pp) x) else (k, x)) (edges g)"
  have 1: "update_edges (corridor_edge (get_policy_type pp)) ?P (edges g) = Inr es1"
    unfolding es1_def
    using primary_edges_distinct [OF assms(1)] primary_edges_subset [of lw g pp]
    by (intro update_edges_Inr) (simp_all add: edge_ids_def)
  have d1: "is_dict es1" unfolding es1_def using assms(1) by (rule is_dict_update)
  have "update_edges network_wide_edge (other_edges es1 ?P) es1 =
      Inr (map (\<lambda>(k, x). if k \<in> set (other_edges es1 ?P) then (k, network_wide_edge x) else (k, x)) es1)"
    using other_edges_distinct [OF d1] by (intro update_edges_Inr) (auto simp: other_edges_set edge_ids_def)
  also have "map (\<lambda>(k, x). if k \<in> set (other_edges es1 ?P) then (k, network_wide_edge x) else (k, x)) es1 =
      map (\<lambda>(k, x). if k \<notin> set ?P then (k, network_wide_edge x) else (k, x)) es1"
    by (rule map_cong) (force simp: other_edges_set edge_ids_def)+
  finally have 2: "update_edges network_wide_edge (other_edges es1 ?P) es1 =
      Inr (map (\<lambda>(k, x). if k \<notin> set ?P then (k, network_wide_edge x) else (k, x)) es1)" .
  have 3: "map (\<lambda>(k, x). if False \<and> k \<notin> set ?P then (k, network_wide_edge x) else (k, x)) es1 = es1"
    by (induction es1) auto
  from assms(2) have nrc: "get_policy_type pp \<noteq> ''road_closure''" by auto
  show ?thesis
    using assms(2) nrc
    by (cases "get_scope pp = ''network-wide''")
      (simp_all add: apply_effects_def Let_def 1 2 3 es1_def [symmetric] del: map_map)
qed

lemma apply_effects_signal:
  assumes "is_dict (edges g)" and "get_policy_type pp = ''signal_timing''"
  shows "apply_effects lw choice g pp = Inr (map (\<lambda>(k, x). (k, signal_edge x)) (edges g))"
proof -
  have "update_edges signal_edge (edge_ids (edges g)) (edges g) =
      Inr (map (\<lambda>(k, x). if k \<in> set (edge_ids (edges g)) then (k, signal_edge x) else (k, x)) (edges g))"
    using assms(1) by (intro update_edges_Inr) (simp_all add: is_dict_def edge_ids_def)
  also have "map (\<lambda>(k, x). if k \<in> set (edge_ids (edges g)) then (k, signal_edge x) else (k, x)) (edges g) =
      map (\<lambda>(k, x). (k, signal_edge x)) (edges g)"
    by (rule map_cong) (force simp: edge_ids_def)+
  finally show ?thesis
    using assms(2) by (simp add: apply_effects_def Let_def)
qed

lemma apply_effects_unrecognized:
  assumes "get_policy_type pp \<notin> {''road_closure'', ''new_route'', ''transit_add'', ''signal_timing''}"
  shows "apply_effects lw choice g pp = Inr (edges g)"
  using assms by (simp add: apply_effects_def Let_def)

text \<open>
  Claim C5, as the code has it: under \<open>new_route\<close> or \<open>transit_add\<close> every primary
  edge gets the congestion ratio \<open>max(0.1, ratio * factor)\<close> with factor 0.75 or
  0.70, which is at least 0.1, and is at most the ratio before whenever that ratio
  was itself at least 0.1; its baseline flow becomes the old flow times 0.85 or 0.80,
  truncated to an integer.
\<close>

theorem corridor_primary_effect:
  assumes "is_dict (edges g)"
    and "get_policy_type pp = ''new_route'' \<or> get_policy_type pp = ''transit_add''"
  shows "\<exists>g'. apply_policy_to_graph lw choice g pp = Inr g' \<and>
     (\<forall>eid \<in> set (primary_edges lw g pp). \<exists>e e'.
        map_of (edges g) eid = Some e \<and> map_of (edges g') eid = Some e' \<and>
        congestion_ratio e' =
          max 0.1 (congestion_ratio e *
                   (if get_policy_type pp = ''new_route'' then 0.75 else 0.70)) \<and>
        0.1 \<le> congestion_ratio e' \<and>
        (0.1 \<le> congestion_ratio e \<longrightarrow> congestion_ratio e' \<le> congestion_ratio e) \<and>
        baseline_flow e' =
          py_int (real_of_int (baseline_flow e) *
                   (1 - (if get_policy_type pp = ''new_route'' then 0.15 else 0.20))))"
proof -
  let ?P = "primary_edges lw g pp"
  define es1 where "es1 = map (\<lambda>(k, x). if k \<in> set ?P
                            then (k, corridor_edge (get_policy_type pp) x) else (k, x)) (edges g)"
  define es' where "es' = map (\<lambda>(k, x). if get_scope pp = ''network-wide'' \<and> k \<notin> set ?P
                          then (k, network_wide_edge x) else (k, x)) es1"
  define g' where "g' = g\<lparr>edges := es', policy_applied := Some (get_policy_type pp),
               primary_affected_edges := Some ?P\<rparr>"
  have res: "apply_policy_to_graph lw choice g pp = Inr g'"
    by (simp add: apply_policy_to_graph_def apply_effects_corridor [OF assms] g'_def es'_def
        es1_def)
  have eg: "edges g' = es'" by (simp add: g'_def)
  have look: "map_of es' eid =
      (case map_of (edges g) eid of None \<Rightarrow> None
       | Some x \<Rightarrow> Some (corridor_edge (get_policy_type pp) x))" if "eid \<in> set ?P" for eid
    unfolding es'_def es1_def using that
    by (simp add: map_of_update del: map_map split: option.splits)
  have prim: "\<exists>e e'. map_of (edges g) eid = Some e \<and> map_of (edges g') eid = Some e' \<and>
        congestion_ratio e' =
          max 0.1 (congestion_ratio e *
                   (if get_policy_type pp = ''new_route'' then 0.75 else 0.70)) \<and>
        0.1 \<le> congestion_ratio e' \<and>
        (0.1 \<le> congestion_ratio e \<longrightarrow> congestion_ratio e' \<le> congestion_ratio e) \<and>
        baseline_flow e' =
          py_int (real_of_int (baseline_flow e) *
                   (1 - (if get_policy_type pp = ''new_route'' then 0.15 else 0.20)))"
    if "eid \<in> set ?P" for eid
  proof -
    from that primary_edges_subset [of lw g pp] obtain e where e: "map_of (edges g) eid = Some e"
      using map_of_in_ids by blast
    have "map_of (edges g') eid = Some (corridor_edge (get_policy_type pp) e)"
      using that e by (simp add: eg look)
    then show ?thesis
      using e
      by (auto simp: corridor_edge_def congestion_reduction_corridor_def modal_shift_factor_def
          Let_def)
  qed
  from res prim show ?thesis by blast
qed

text \<open>
  Claim C7: under \<open>signal_timing\<close> every edge of the returned state, primary or not,
  has its travel time divided by 1.10 and the congestion ratio
  \<open>max(0.1, ratio * 0.90)\<close>, all other attributes being as before.
\<close>

theorem signal_timing_effect:
  assumes "is_dict (edges g)" and "get_policy_type pp = ''signal_timing''"
  shows "\<exists>g'. apply_policy_to_graph lw choice g pp = Inr g' \<and>
     edge_ids (edges g') = edge_ids (edges g) \<and>
     (\<forall>eid e. map_of (edges g) eid = Some e \<longrightarrow>
        map_of (edges g') eid =
          Some (e\<lparr>congestion_ratio := max 0.1 (congestion_ratio e * 0.90),
                   travel_time := travel_time e / 1.10\<rparr>))"
proof -
  define es' where "es' = map (\<lambda>(k, x). (k, signal_edge x)) (edges g)"
  define g' where "g' = g\<lparr>edges := es', policy_applied := Some (get_policy_type pp),
               primary_affected_edges := Some (primary_edges lw g pp)\<rparr>"
  have res: "apply_policy_to_graph lw choice g pp = Inr g'"
    by (simp add: apply_policy_to_graph_def apply_effects_signal [OF assms] g'_def es'_def)
  have eg: "edges g' = es'" by (simp add: g'_def)
  have ids: "edge_ids (edges g') = edge_ids (edges g)"
    by (simp add: eg es'_def edge_ids_def case_prod_unfold comp_def)
  have look: "map_of es' eid = map_option signal_edge (map_of (edges g) eid)" for eid
    unfolding es'_def by (induction "edges g") (auto simp: map_of_map)
  have all: "map_of (edges g') eid =
          Some (e\<lparr>congestion_ratio := max 0.1 (congestion_ratio e * 0.90),
                   travel_time := travel_time e / 1.10\<rparr>)"
    if "map_of (edges g) eid = Some e" for eid e
    using that
    by (simp add: eg look signal_edge_def congestion_reduction_network_def speed_improvement_def)
  from res ids all show ?thesis by blast
qed

lemma g3_is_dict: "is_dict (edges g3)"
  by (simp add: is_dict_def edge_ids_def example_defs)

theorem corridor_primary_effect_witness:
  "is_dict (edges g3) \<and>
   get_policy_type (example_params (Some ''new_route'') [''mg''] ''local'' 30) = ''new_route'' \<and>
   primary_edges ascii_lower g3 (example_params (Some ''new_route'') [''mg''] ''local'' 30) = [''1-2-0''] \<and>
   (\<exists>g'. apply_policy_to_graph ascii_lower (\<lambda>xs k. take k xs) g3
           (example_params (Some ''new_route'') [''mg''] ''local'' 30) = Inr g' \<and>
      map (\<lambda>(k, e). (k, congestion_ratio e, baseline_flow e)) (edges g') =
        [(''1-2-0'', 0.375, 425), (''2-3-0'', 0.9, 300), (''3-4-0'', 0.05, 100)]) \<and>
   get_policy_type (example_params (Some ''transit_add'') [''canal''] ''network-wide'' 30) =
     ''transit_add'' \<and>
   primary_edges ascii_lower g3 (example_params (Some ''transit_add'') [''canal''] ''network-wide'' 30) =
     [''2-3-0''] \<and>
   (\<exists>g'. apply_policy_to_graph ascii_lower (\<lambda>xs k. take k xs) g3
           (example_params (Some ''transit_add'') [''canal''] ''network-wide'' 30) = Inr g' \<and>
      map (\<lambda>(k, e). (k, congestion_ratio e, baseline_flow e)) (edges g') =
        [(''1-2-0'', 0.475, 500), (''2-3-0'', 0.63, 240), (''3-4-0'', 0.1, 100)])"
proof -
  let ?p1 = "example_params (Some ''new_route'') [''mg''] ''local'' 30"
  let ?p2 = "example_params (Some ''transit_add'') [''canal''] ''network-wide'' 30"
  have a1: "get_policy_type ?p1 = ''new_route''"
    by (simp add: get_policy_type_def example_params_def)
  have a2: "get_policy_type ?p2 = ''transit_add''"
    by (simp add: get_policy_type_def example_params_def)
  have b1: "primary_edges ascii_lower g3 ?p1 = [''1-2-0'']"
    by (simp add: selection_defs example_defs)
  have b2: "primary_edges ascii_lower g3 ?p2 = [''2-3-0'']"
    by (simp add: selection_defs example_defs)
  have c1: "\<exists>g'. apply_policy_to_graph ascii_lower (\<lambda>xs k. take k xs) g3 ?p1 = Inr g' \<and>
      map (\<lambda>(k, e). (k, congestion_ratio e, baseline_flow e)) (edges g') =
        [(''1-2-0'', 0.375, 425), (''2-3-0'', 0.9, 300), (''3-4-0'', 0.05, 100)]"
    by (simp add: effect_defs selection_defs example_defs)
  have c2: "\<exists>g'. apply_policy_to_graph ascii_lower (\<lambda>xs k. take k xs) g3 ?p2 = Inr g' \<and>
      map (\<lambda>(k, e). (k, congestion_ratio e, baseline_flow e)) (edges g') =
        [(''1-2-0'', 0.475, 500), (''2-3-0'', 0.63, 240), (''3-4-0'', 0.1, 100)]"
    by (simp add: effect_defs selection_defs example_defs)
  show ?thesis
    using corridor_primary_effect [OF g3_is_dict disjI1 [OF a1],
          where lw = ascii_lower and choice = "\<lambda>xs k. take k xs"]
      corridor_primary_effect [OF g3_is_dict disjI2 [OF a2],
          where lw = ascii_lower and choice = "\<lambda>xs k. take k xs"]
      g3_is_dict a1 a2 b1 b2 c1 c2
    by blast
qed

text \<open>
  Claim C5 as stated has the ratio never rise; the floor at 0.1 raises the ratio of
  a primary edge that was below 0.1.
\<close>

theorem corridor_ratio_counterexample:
  "''3-4-0'' \<in> set (primary_edges ascii_lower g3 (example_params (Some ''new_route'') [''hill''] ''local'' 30)) \<and>
   (\<exists>g' e e'. apply_policy_to_graph ascii_lower (\<lambda>xs k. take k xs) g3
           (example_params (Some ''new_route'') [''hill''] ''local'' 30) = Inr g' \<and>
      map_of (edges g3) ''3-4-0'' = Some e \<and> map_of (edges g') ''3-4-0'' = Some e' \<and>
      congestion_ratio e = 0.05 \<and> congestion_ratio e' = 0.1 \<and>
      \<not> congestion_ratio e' \<le> congestion_ratio e)"
proof -
  let ?pp = "example_params (Some ''new_route'') [''hill''] ''local'' 30"
  have a: "primary_edges ascii_lower g3 ?pp = [''3-4-0'']"
    by (simp add: selection_defs example_defs)
  have b: "\<exists>g' e e'. apply_policy_to_graph ascii_lower (\<lambda>xs k. take k xs) g3 ?pp = Inr g' \<and>
      map_of (edges g3) ''3-4-0'' = Some e \<and> map_of (edges g') ''3-4-0'' = Some e' \<and>
      congestion_ratio e = 0.05 \<and> congestion_ratio e' = 0.1 \<and>
      \<not> congestion_ratio e' \<le> congestion_ratio e"
    by (simp add: effect_defs selection_defs example_defs)
  show ?thesis using a b by simp
qed

theorem signal_timing_effect_witness:
  "is_dict (edges g3) \<and>
   get_policy_type (example_params (Some ''signal_timing'') [''mg''] ''local'' 30) =
     ''signal_timing'' \<and>
   primary_edges ascii_lower g3 (example_params (Some ''signal_timing'') [''mg''] ''local'' 30) = [''1-2-0''] \<and>
   (\<exists>g'. apply_policy_to_graph ascii_lower (\<lambda>xs k. take k xs) g3
           (example_params (Some ''signal_timing'') [''mg''] ''local'' 30) = Inr g' \<and>
      map (\<lambda>(k, e). (k, congestion_ratio e, travel_time e)) (edges g') =
        [(''1-2-0'', 0.45, 1200 / 11), (''2-3-0'', 0.81, 600 / 11), (''3-4-0'', 0.1, 300 / 11)])"
proof -
  let ?pp = "example_params (Some ''signal_timing'') [''mg''] ''local'' 30"
  have a: "get_policy_type ?pp = ''signal_timing''"
    by (simp add: get_policy_type_def example_params_def)
  have b: "primary_edges ascii_lower g3 ?pp = [''1-2-0'']"
    by (simp add: selection_defs example_defs)
  have c: "\<exists>g'. apply_policy_to_graph ascii_lower (\<lambda>xs k. take k xs) g3 ?pp = Inr g' \<and>
      map (\<lambda>(k, e). (k, congestion_ratio e, travel_time e)) (edges g') =
        [(''1-2-0'', 0.45, 1200 / 11), (''2-3-0'', 0.81, 600 / 11), (''3-4-0'', 0.1, 300 / 11)]"
    by (simp add: effect_defs selection_defs example_defs)
  show ?thesis
    using signal_timing_effect [OF g3_is_dict a,
          where lw = ascii_lower and choice = "\<lambda>xs k. take k xs"] g3_is_dict a b c
    by blast
qed

section \<open>What the applier leaves alone\<close>

lemma update_edges_static:
  assumes "\<And>x. static_part (f x) = static_part x"
  shows "update_edges f eids es = Inr es' \<Longrightarrow>
     map (\<lambda>(k, e). (k, static_part e)) es' = map (\<lambda>(k, e). (k, static_part e)) es"
proof (induction eids arbitrary: es)
  case Nil
  then show ?case by simp
next
  case (Cons eid eids)
  let ?es1 = "map (\<lambda>(k, x). if k = eid then (k, f x) else (k, x)) es"
  from Cons.prems have "update_edges f eids ?es1 = Inr es'"
    by (simp split: option.splits)
  then have "map (\<lambda>(k, e). (k, static_part e)) es' = map (\<lambda>(k, e). (k, static_part e)) ?es1"
    by (rule Cons.IH)
  also have "\<dots> = map (\<lambda>(k, e). (k, static_part e)) es"
    by (induction es) (auto simp: assms)
  finally show ?case .
qed

lemma static_part_effects:
  "static_part (close_edge x) = static_part x"
  "static_part (spill_edge x) = static_part x"
  "static_part (corridor_edge t x) = static_part x"
  "static_part (network_wide_edge x) = static_part x"
  "static_part (signal_edge x) = static_part x"
  by (simp_all add: static_part_def close_edge_def spill_edge_def corridor_edge_def
      network_wide_edge_def signal_edge_def Let_def)

lemma apply_effects_static:
  assumes "apply_effects lw choice g pp = Inr es'"
  shows "map (\<lambda>(k, e). (k, static_part e)) es' = map (\<lambda>(k, e). (k, static_part e)) (edges g)"
proof -
  consider (rc) "get_policy_type pp = ''road_closure''"
    | (co) "get_policy_type pp \<noteq> ''road_closure''"
        "get_policy_type pp = ''new_route'' \<or> get_policy_type pp = ''transit_add''"
    | (si) "get_policy_type pp \<noteq> ''road_closure''"
        "\<not> (get_policy_type pp = ''new_route'' \<or> get_policy_type pp = ''transit_add'')"
        "get_policy_type pp = ''signal_timing''"
    | (un) "get_policy_type pp \<noteq> ''road_closure''"
        "\<not> (get_policy_type pp = ''new_route'' \<or> get_policy_type pp = ''transit_add'')"
        "get_policy_type pp \<noteq> ''signal_timing''"
    by blast
  then show ?thesis
  proof cases
    case rc
    with assms obtain es1 where
      1: "update_edges close_edge (primary_edges lw g pp) (edges g) = Inr es1" and
      2: "spill_over choice (target_count g pp) (primary_edges lw g pp) es1 = Inr es'"
      by (auto simp: apply_effects_def Let_def split: sum.splits)
    from 2 have "map (\<lambda>(k, e). (k, static_part e)) es' = map (\<lambda>(k, e). (k, static_part e)) es1"
      unfolding spill_over_def Let_def
      by (rule update_edges_static [rotated]) (rule static_part_effects)
    also from 1 have "\<dots> = map (\<lambda>(k, e). (k, static_part e)) (edges g)"
      by (rule update_edges_static [rotated]) (rule static_part_effects)
    finally show ?thesis .
  next
    case co
    with assms obtain es1 where
      1: "update_edges (corridor_edge (get_policy_type pp)) (primary_edges lw g pp) (edges g) = Inr es1" and
      2: "(if get_scope pp = ''network-wide''
           then update_edges network_wide_edge (other_edges es1 (primary_edges lw g pp)) es1
           else Inr es1) = Inr es'"
      by (auto simp: apply_effects_def Let_def split: sum.splits)
    have "map (\<lambda>(k, e). (k, static_part e)) es' = map (\<lambda>(k, e). (k, static_part e)) es1"
    proof (cases "get_scope pp = ''network-wide''")
      case True
      with 2 have "update_edges network_wide_edge (other_edges es1 (primary_edges lw g pp)) es1 = Inr es'"
        by simp
      then show ?thesis
        by (rule update_edges_static [rotated]) (rule static_part_effects)
    next
      case False
      with 2 show ?thesis by simp
    qed
    also from 1 have "\<dots> = map (\<lambda>(k, e). (k, static_part e)) (edges g)"
      by (rule update_edges_static [rotated]) (rule static_part_effects)
    finally show ?thesis .
  next
    case si
    with assms have "update_edges signal_edge (edge_ids (edges g)) (edges g) = Inr es'"
      by (simp add: apply_effects_def Let_def)
    then show ?thesis
      by (rule update_edges_static [rotated]) (rule static_part_effects)
  next
    case un
    with assms show ?thesis by (simp add: apply_effects_def Let_def)
  qed
qed

lemma apply_effects_total:
  assumes "is_dict (edges g)" and "sample_without_replacement choice"
  shows "\<exists>es'. apply_effects lw choice g pp = Inr es'"
proof -
  consider "get_policy_type pp = ''road_closure''"
    | "get_policy_type pp = ''new_route'' \<or> get_policy_type pp = ''transit_add''"
    | "get_policy_type pp = ''signal_timing''"
    | "get_policy_type pp \<notin> {''road_closure'', ''new_route'', ''transit_add'', ''signal_timing''}"
    by blast
  then show ?thesis
  proof cases
    case 1
    then show ?thesis using apply_effects_road_closure [OF assms] by blast
  next
    case 2
    then show ?thesis using apply_effects_corridor [OF assms(1)] by blast
  next
    case 3
    then show ?thesis using apply_effects_signal [OF assms(1)] by blast
  next
    case 4
    then show ?thesis using apply_effects_unrecognized by blast
  qed
qed

lemma apply_policy_to_graph_total:
  assumes "is_dict (edges g)" and "sample_without_replacement choice"
  shows "\<exists>g'. apply_policy_to_graph lw choice g pp = Inr g'"
  using apply_effects_total [OF assms, where lw = lw and pp = pp] by (auto simp: apply_policy_to_graph_def)

lemma apply_policy_to_graph_frame:
  assumes "apply_policy_to_graph lw choice g pp = Inr g'"
  shows "g' = g\<lparr>edges := edges g', policy_applied := Some (get_policy_type pp),
                primary_affected_edges := Some (primary_edges lw g pp)\<rparr> \<and>
         map (\<lambda>(k, e). (k, static_part e)) (edges g') =
           map (\<lambda>(k, e). (k, static_part e)) (edges g)"
proof -
  from assms obtain es' where es': "apply_effects lw choice g pp = Inr es'"
    and g': "g' = g\<lparr>edges := es', policy_applied := Some (get_policy_type pp),
                primary_affected_edges := Some (primary_edges lw g pp)\<rparr>"
    by (auto simp: apply_policy_to_graph_def split: sum.splits)
  from apply_effects_static [OF es'] g' show ?thesis by simp
qed

lemma static_ids:
  assumes "map (\<lambda>(k, e). (k, static_part e)) es' = map (\<lambda>(k, e). (k, static_part e)) es"
  shows "edge_ids es' = edge_ids es"
proof -
  have "map fst (map (\<lambda>(k, e). (k, static_part e)) xs) = edge_ids xs" for xs :: edge_dict
    by (simp add: edge_ids_def case_prod_unfold comp_def)
  with assms show ?thesis by metis
qed

text \<open>
  Claim C10: applied to the object at address \<open>a\<close> of the store, the applier
  returns the address of a new object and leaves every object that was in the store,
  the input among them, as it was. The new state is the input state with other
  \<open>edges\<close>, \<open>policy_applied\<close> and \<open>primary_affected_edges\<close> entries: nodes, node
  count and edge count are the same, the edge ids are the same in the same order,
  and every edge keeps all attributes other than congestion ratio, baseline flow,
  travel time and the closed flag.
\<close>

theorem apply_policy_frame:
  assumes "a < length st" and "is_dict (edges (st ! a))"
    and "sample_without_replacement choice"
  shows "\<exists>st' g'. apply_policy_to_graph_st lw choice st a pp = Inr (st', length st) \<and>
     length st' = Suc (length st) \<and>
     (\<forall>i < length st. st' ! i = st ! i) \<and>
     st' ! length st = g' \<and>
     g' = (st ! a)\<lparr>edges := edges g', policy_applied := Some (get_policy_type pp),
                     primary_affected_edges := Some (primary_edges lw (st ! a) pp)\<rparr> \<and>
     nodes g' = nodes (st ! a) \<and>
     node_count g' = node_count (st ! a) \<and>
     edge_count g' = edge_count (st ! a) \<and>
     length (edges g') = length (edges (st ! a)) \<and>
     edge_ids (edges g') = edge_ids (edges (st ! a)) \<and>
     map (\<lambda>(k, e). (k, static_part e)) (edges g') =
       map (\<lambda>(k, e). (k, static_part e)) (edges (st ! a))"
proof -
  let ?g = "st ! a"
  from apply_policy_to_graph_total [OF assms(2,3), where lw = lw and pp = pp]
  obtain g' where g': "apply_policy_to_graph lw choice ?g pp = Inr g'" by blast
  note fr = apply_policy_to_graph_frame [OF g']
  define st' where "st' = (st @ [?g])[length st := g']"
  have run: "apply_policy_to_graph_st lw choice st a pp = Inr (st', length st)"
    using assms(1) g' by (simp add: apply_policy_to_graph_st_def deepcopy_def st'_def)
  have len: "length st' = Suc (length st)" by (simp add: st'_def)
  have old: "st' ! i = st ! i" if "i < length st" for i
    using that by (simp add: st'_def nth_append)
  have new: "st' ! length st = g'" by (simp add: st'_def)
  have ids: "edge_ids (edges g') = edge_ids (edges ?g)"
    using fr by (intro static_ids) simp
  then have n: "length (edges g') = length (edges ?g)"
    unfolding edge_ids_def by (rule map_eq_imp_length_eq)
  have fields: "nodes g' = nodes ?g" "node_count g' = node_count ?g" "edge_count g' = edge_count ?g"
    using arg_cong [OF conjunct1 [OF fr], of nodes] arg_cong [OF conjunct1 [OF fr], of node_count]
      arg_cong [OF conjunct1 [OF fr], of edge_count]
    by simp_all
  from run len old new fr ids n fields show ?thesis by blast
qed

lemma g3_closure:
  "apply_policy_to_graph ascii_lower (\<lambda>xs k. take k xs) g3
     (example_params (Some ''road_closure'') [''hill''] ''local'' 30) =
   Inr (g3\<lparr>edges :=
              [(''1-2-0'', (example_edge ''MG Road'' ''primary'' 500 0.5 120)\<lparr>congestion_ratio := 0.675\<rparr>),
               (''2-3-0'', (example_edge ''Canal St'' ''residential'' 300 0.9 60)\<lparr>congestion_ratio := 1\<rparr>),
               (''3-4-0'', (example_edge ''Hill Rd'' ''primary'' 100 0.05 30)
                  \<lparr>congestion_ratio := 0, baseline_flow := 0, closed := Some True\<rparr>)],
            policy_applied := Some ''road_closure'',
            primary_affected_edges := Some [''3-4-0'']\<rparr>)"
  by (simp add: effect_defs selection_defs example_defs)

theorem apply_policy_frame_witness:
  "(0 :: nat) < length [g3] \<and> is_dict (edges ([g3] ! 0)) \<and>
   sample_without_replacement (\<lambda>xs k. take k xs) \<and>
   (\<exists>st'. apply_policy_to_graph_st ascii_lower (\<lambda>xs k. take k xs) [g3] 0
            (example_params (Some ''road_closure'') [''hill''] ''local'' 30) = Inr (st', 1) \<and>
      length st' = 2 \<and> st' ! 0 = g3 \<and>
      policy_applied (st' ! 1) = Some ''road_closure'' \<and>
      primary_affected_edges (st' ! 1) = Some [''3-4-0''] \<and>
      map (\<lambda>(k, e). (k, congestion_ratio e, baseline_flow e, closed e)) (edges (st' ! 1)) =
        [(''1-2-0'', 0.675, 500, None), (''2-3-0'', 1, 300, None), (''3-4-0'', 0, 0, Some True)])"
proof -
  let ?pp = "example_params (Some ''road_closure'') [''hill''] ''local'' 30"
  have h1: "(0 :: nat) < length [g3]" by simp
  have h2: "is_dict (edges ([g3] ! 0))" using g3_is_dict by simp
  have r: "\<exists>st'. apply_policy_to_graph_st ascii_lower (\<lambda>xs k. take k xs) [g3] 0 ?pp = Inr (st', 1) \<and>
      length st' = 2 \<and> st' ! 0 = g3 \<and>
      policy_applied (st' ! 1) = Some ''road_closure'' \<and>
      primary_affected_edges (st' ! 1) = Some [''3-4-0''] \<and>
      map (\<lambda>(k, e). (k, congestion_ratio e, baseline_flow e, closed e)) (edges (st' ! 1)) =
        [(''1-2-0'', 0.675, 500, None), (''2-3-0'', 1, 300, None), (''3-4-0'', 0, 0, Some True)]"
    by (simp add: apply_policy_to_graph_st_def deepcopy_def g3_closure) (simp add: example_edge_def)
  show ?thesis
    using apply_policy_frame [OF h1 h2 take_sample, where lw = ascii_lower and pp = ?pp] h1 h2 take_sample r by blast
qed

section \<open>Missing and unrecognized policy types\<close>

lemma apply_policy_to_graph_cong:
  assumes "get_policy_type pp = get_policy_type pp'" and "get_keywords lw pp = get_keywords lw pp'"
    and "get_affected_pct pp = get_affected_pct pp'" and "get_scope pp = get_scope pp'"
  shows "apply_policy_to_graph lw choice g pp = apply_policy_to_graph lw choice g pp'"
proof -
  have tc: "target_count g pp = target_count g pp'"
    using assms by (simp add: target_count_def)
  have pe: "primary_edges lw g pp = primary_edges lw g pp'"
    using assms tc by (simp add: primary_edges_def)
  show ?thesis
    unfolding apply_policy_to_graph_def apply_effects_def tc pe assms ..
qed

text \<open>
  Claim C6, as the code has it. A missing policy type is read as \<open>road_closure\<close>,
  the other fields of the intent staying in force; only an intent that lacks all
  four fields is treated like the parser's default intent (\<open>road_closure\<close>, no
  keywords, scope \<open>local\<close>, 5 percent). A policy type outside the four known ones
  applies no effect: the edges are returned as they were, the primary edges are
  still selected and recorded, and the unknown type is recorded as applied. The
  parser returns its default intent when the request or the decoding raises. In
  every case the applier returns a state and raises nothing.
\<close>

theorem policy_type_fallback:
  assumes "is_dict (edges g)" and "sample_without_replacement choice"
  shows "(policy_type pp = None \<longrightarrow>
       apply_policy_to_graph lw choice g pp =
       apply_policy_to_graph lw choice g (pp\<lparr>policy_type := Some ''road_closure''\<rparr>)) \<and>
     (policy_type pp = None \<and> affected_road_keywords pp = None \<and> scope pp = None \<and>
      estimated_affected_edges_pct pp = None \<longrightarrow>
       apply_policy_to_graph lw choice g pp =
       apply_policy_to_graph lw choice g (default_policy_params d)) \<and>
     (get_policy_type pp \<notin> {''road_closure'', ''new_route'', ''transit_add'', ''signal_timing''} \<longrightarrow>
       apply_policy_to_graph lw choice g pp =
       Inr (g\<lparr>policy_applied := Some (get_policy_type pp),
               primary_affected_edges := Some (primary_edges lw g pp)\<rparr>)) \<and>
     (llm policy = None \<longrightarrow> parse_policy_with_llm llm policy = default_policy_params policy) \<and>
     (\<exists>g'. apply_policy_to_graph lw choice g pp = Inr g')"
proof -
  have a: "apply_policy_to_graph lw choice g pp =
       apply_policy_to_graph lw choice g (pp\<lparr>policy_type := Some ''road_closure''\<rparr>)"
    if "policy_type pp = None"
    using that
    by (intro apply_policy_to_graph_cong)
      (simp_all add: get_policy_type_def get_keywords_def get_affected_pct_def get_scope_def)
  have b: "apply_policy_to_graph lw choice g pp =
       apply_policy_to_graph lw choice g (default_policy_params d)"
    if "policy_type pp = None \<and> affected_road_keywords pp = None \<and> scope pp = None \<and>
      estimated_affected_edges_pct pp = None"
    using that
    by (intro apply_policy_to_graph_cong)
      (simp_all add: get_policy_type_def get_keywords_def get_affected_pct_def get_scope_def
        default_policy_params_def)
  have c: "apply_policy_to_graph lw choice g pp =
       Inr (g\<lparr>policy_applied := Some (get_policy_type pp),
               primary_affected_edges := Some (primary_edges lw g pp)\<rparr>)"
    if "get_policy_type pp \<notin> {''road_closure'', ''new_route'', ''transit_add'', ''signal_timing''}"
    using apply_effects_unrecognized [OF that, where lw = lw and choice = choice and g = g]
    by (simp add: apply_policy_to_graph_def)
  have d: "parse_policy_with_llm llm policy = default_policy_params policy" if "llm policy = None"
    using that by (simp add: parse_policy_with_llm_def)
  from a b c d apply_policy_to_graph_total [OF assms, where lw = lw and pp = pp] show ?thesis by blast
qed

theorem policy_type_fallback_witness:
  "is_dict (edges g3) \<and> sample_without_replacement (\<lambda>xs k. take k xs) \<and>
   policy_type (example_params None [''hill''] ''local'' 30) = None \<and>
   apply_policy_to_graph ascii_lower (\<lambda>xs k. take k xs) g3 (example_params None [''hill''] ''local'' 30) =
     apply_policy_to_graph ascii_lower (\<lambda>xs k. take k xs) g3
       (example_params (Some ''road_closure'') [''hill''] ''local'' 30) \<and>
   get_policy_type (example_params (Some ''congestion_pricing'') [''hill''] ''local'' 30)
     \<notin> {''road_closure'', ''new_route'', ''transit_add'', ''signal_timing''} \<and>
   apply_policy_to_graph ascii_lower (\<lambda>xs k. take k xs) g3
       (example_params (Some ''congestion_pricing'') [''hill''] ''local'' 30) =
     Inr (g3\<lparr>policy_applied := Some ''congestion_pricing'',
              primary_affected_edges := Some [''3-4-0'']\<rparr>) \<and>
   parse_policy_with_llm (\<lambda>s. None) ''close the bridge'' =
     default_policy_params ''close the bridge''"
proof -
  let ?p1 = "example_params None [''hill''] ''local'' 30"
  let ?p2 = "example_params (Some ''congestion_pricing'') [''hill''] ''local'' 30"
  have a: "policy_type ?p1 = None" by (simp add: example_params_def)
  have b: "?p1\<lparr>policy_type := Some ''road_closure''\<rparr> =
      example_params (Some ''road_closure'') [''hill''] ''local'' 30"
    by (simp add: example_params_def)
  have c: "get_policy_type ?p2 \<notin> {''road_closure'', ''new_route'', ''transit_add'', ''signal_timing''}"
    by (simp add: get_policy_type_def example_params_def)
  have d: "get_policy_type ?p2 = ''congestion_pricing''"
    by (simp add: get_policy_type_def example_params_def)
  have e: "primary_edges ascii_lower g3 ?p2 = [''3-4-0'']"
    by (simp add: selection_defs example_defs)
  show ?thesis
    using policy_type_fallback [OF g3_is_dict take_sample, where lw = ascii_lower and pp = ?p1
          and d = "''x''" and llm = "\<lambda>s. None" and policy = "''close the bridge''"]
      policy_type_fallback [OF g3_is_dict take_sample, where lw = ascii_lower and pp = ?p2
          and d = "''x''" and llm = "\<lambda>s. None" and policy = "''close the bridge''"]
      g3_is_dict take_sample a c
    by (simp add: b d e)
qed

lemma g3_default:
  "apply_policy_to_graph ascii_lower (\<lambda>xs k. take k xs) g3 (default_policy_params ''close the bridge'') =
   Inr (g3\<lparr>edges :=
              [(''1-2-0'', (example_edge ''MG Road'' ''primary'' 500 0.5 120)\<lparr>congestion_ratio := 0.675\<rparr>),
               (''2-3-0'', (example_edge ''Canal St'' ''residential'' 300 0.9 60)
                  \<lparr>congestion_ratio := 0, baseline_flow := 0, closed := Some True\<rparr>),
               (''3-4-0'', (example_edge ''Hill Rd'' ''primary'' 100 0.05 30)\<lparr>congestion_ratio := 0.0675\<rparr>)],
            policy_applied := Some ''road_closure'',
            primary_affected_edges := Some [''2-3-0'']\<rparr>)"
  by (simp add: effect_defs selection_defs example_defs default_policy_params_def)

lemma g3_unrecognized:
  "apply_policy_to_graph ascii_lower (\<lambda>xs k. take k xs) g3
     (example_params (Some ''congestion_pricing'') [''hill''] ''local'' 30) =
   Inr (g3\<lparr>policy_applied := Some ''congestion_pricing'',
            primary_affected_edges := Some [''3-4-0'']\<rparr>)"
  by (simp add: effect_defs selection_defs example_defs)

text \<open>
  Claim C6 as stated has an unrecognized policy type, and a missing one, handled like
  the default closure intent. On the three-road state the unknown type
  \<open>congestion_pricing\<close> closes nothing while the default intent closes the most
  congested road; and an intent without policy type keeps its own keywords and
  percentage, which select other primary edges than the default intent does.
\<close>

theorem policy_type_fallback_counterexample:
  "(\<exists>g1 g2.
      apply_policy_to_graph ascii_lower (\<lambda>xs k. take k xs) g3
        (example_params (Some ''congestion_pricing'') [''hill''] ''local'' 30) = Inr g1 \<and>
      apply_policy_to_graph ascii_lower (\<lambda>xs k. take k xs) g3
        (default_policy_params ''close the bridge'') = Inr g2 \<and>
      edges g1 = edges g3 \<and>
      map_option closed (map_of (edges g1) ''2-3-0'') = Some None \<and>
      map_option closed (map_of (edges g2) ''2-3-0'') = Some (Some True) \<and>
      policy_applied g1 = Some ''congestion_pricing'' \<and>
      policy_applied g2 = Some ''road_closure'' \<and>
      g1 \<noteq> g2) \<and>
   primary_edges ascii_lower g3 (example_params None [''hill''] ''local'' 70) = [''3-4-0'', ''2-3-0''] \<and>
   primary_edges ascii_lower g3 (default_policy_params ''close the bridge'') = [''2-3-0'']"
proof -
  have a: "primary_edges ascii_lower g3 (example_params None [''hill''] ''local'' 70) = [''3-4-0'', ''2-3-0'']"
    by (simp add: selection_defs example_defs)
  have b: "primary_edges ascii_lower g3 (default_policy_params ''close the bridge'') = [''2-3-0'']"
    by (simp add: selection_defs example_defs default_policy_params_def)
  have c: "\<exists>g1 g2.
      apply_policy_to_graph ascii_lower (\<lambda>xs k. take k xs) g3
        (example_params (Some ''congestion_pricing'') [''hill''] ''local'' 30) = Inr g1 \<and>
      apply_policy_to_graph ascii_lower (\<lambda>xs k. take k xs) g3
        (default_policy_params ''close the bridge'') = Inr g2 \<and>
      edges g1 = edges g3 \<and>
      map_option closed (map_of (edges g1) ''2-3-0'') = Some None \<and>
      map_option closed (map_of (edges g2) ''2-3-0'') = Some (Some True) \<and>
      policy_applied g1 = Some ''congestion_pricing'' \<and>
      policy_applied g2 = Some ''road_closure'' \<and>
      g1 \<noteq> g2"
    unfolding g3_default g3_unrecognized
    by (simp add: example_defs)
  show ?thesis using a b c by simp
qed

section \<open>Metrics aggregation\<close>

text \<open>
  Claim C3, as the code has it: for a state with at least one edge the aggregator
  raises nothing and returns the mean congestion ratio rounded to 3 decimals, the
  share of edges with ratio above 0.8 in percent rounded to 1 decimal, the mean
  travel time in minutes rounded to 2 decimals, the sum of the baseline flows, the
  daily CO2 mass rounded to 1 decimal and the economic loss rounded to 0 decimals
  (whole currency units). The means are numpy's, every other operation is a binary64
  operation in the order of the code, the loss is computed from the unrounded means,
  and the rounding is Python's \<open>round\<close>. The edge total is the number of edges in
  the dict and the node total is the recorded node count.
\<close>

theorem metrics_formulas:
  assumes "edges g \<noteq> []"
  shows "compute_baseline_metrics np_mean g =
     Inr (Some \<lparr>avg_congestion_ratio = py_round (spec_avg_congestion np_mean g) 3,
                severe_congestion_pct = py_round (spec_severe_pct g) 1,
                avg_travel_time_min = py_round (spec_avg_travel_time_min np_mean g) 2,
                total_vehicle_flow = spec_total_flow g,
                daily_co2_kg = py_round (spec_daily_co2 np_mean g) 1,
                economic_loss_inr_per_day = py_round (spec_economic_loss np_mean g) 0,
                total_edges = length (edges g),
                total_nodes = node_count g\<rparr>)"
proof -
  let ?es = "map snd (edges g)"
  have n: "length (edges g) \<noteq> 0" using assms by simp
  have cnt: "length (filter (\<lambda>r. py_float 0.8 < r) (map congestion_ratio ?es)) =
      length (filter (\<lambda>(eid, e). py_float 0.8 < congestion_ratio e) (edges g))"
    by (induction "edges g") (auto simp: filter_map comp_def case_prod_unfold)
  have share: "py_truediv (real (length (filter (\<lambda>r. py_float 0.8 < r) (map congestion_ratio ?es))))
        (real (length ?es)) =
      Inr (fdiv (real (length (filter (\<lambda>(eid, e). py_float 0.8 < congestion_ratio e) (edges g))))
             (real (length (edges g))))"
    using n by (simp only: cnt py_truediv_def fdiv_def length_map of_nat_eq_0_iff if_False)
  have flow: "sum_list (map baseline_flow ?es) = spec_total_flow g"
    by (simp add: spec_total_flow_def case_prod_unfold comp_def)
  show ?thesis
    unfolding compute_baseline_metrics_def Let_def share flow
    using n
    by (simp add: spec_avg_congestion_def spec_severe_pct_def spec_avg_travel_time_min_def
        spec_daily_co2_def spec_economic_loss_def case_prod_unfold comp_def)
qed

text \<open>A state without edges gives the empty summary.\<close>

lemma metrics_empty: "edges g = [] \<Longrightarrow> compute_baseline_metrics np_mean g = Inr None"
  by (simp add: compute_baseline_metrics_def)

lemmas spec_metric_defs = spec_avg_congestion_def spec_severe_pct_def
  spec_avg_travel_time_min_def spec_total_flow_def spec_daily_co2_def spec_economic_loss_def

lemmas metric_example_defs = g1_def g2_def example_graph_def example_edge_def seq_mean_def

theorem metrics_formulas_witness:
  "edges g2 \<noteq> [] \<and>
   compute_baseline_metrics seq_mean g2 =
     Inr (Some \<lparr>avg_congestion_ratio = 0.75, severe_congestion_pct = 50,
                avg_travel_time_min = 2, total_vehicle_flow = 300, daily_co2_kg = 504,
                economic_loss_inr_per_day = 1400, total_edges = 2, total_nodes = 2\<rparr>)"
proof -
  have a: "edges g2 \<noteq> []" by (simp add: metric_example_defs)
  have b: "length (edges g2) = 2" "node_count g2 = 2" by (simp_all add: metric_example_defs)
  have c: "py_round (spec_avg_congestion seq_mean g2) 3 = 0.75"
    by (simp add: spec_metric_defs metric_example_defs float_defs)
  have d: "py_round (spec_severe_pct g2) 1 = 50"
    by (simp add: spec_metric_defs metric_example_defs float_defs)
  have e: "py_round (spec_avg_travel_time_min seq_mean g2) 2 = 2"
    by (simp add: spec_metric_defs metric_example_defs float_defs)
  have f: "spec_total_flow g2 = 300"
    by (simp add: spec_metric_defs metric_example_defs)
  have h: "py_round (spec_daily_co2 seq_mean g2) 1 = 504"
    by (simp add: spec_metric_defs metric_example_defs float_defs)
  have i: "py_round (spec_economic_loss seq_mean g2) 0 = 1400"
    by (simp add: spec_metric_defs metric_example_defs float_defs)
  show ?thesis
    using metrics_formulas [OF a, of seq_mean] a
    by (simp add: b c d e f h i del: One_nat_def)
qed

text \<open>
  Claim C3 as stated has the economic loss rounded to 1 decimal; on the single road
  the loss is 0.666..., reported as 1 and not as 0.7.
\<close>

theorem economic_loss_precision_counterexample:
  "\<exists>m. compute_baseline_metrics seq_mean g1 = Inr (Some m) \<and>
     economic_loss_inr_per_day m = 1 \<and>
     py_round (spec_economic_loss seq_mean g1) 1 = py_float 0.7 \<and>
     economic_loss_inr_per_day m \<noteq> py_round (spec_economic_loss seq_mean g1) 1"
proof -
  have a: "py_round (spec_economic_loss seq_mean g1) 1 = py_float 0.7"
    by (simp add: spec_metric_defs metric_example_defs float_defs)
  have b: "py_float 0.7 \<noteq> 1"
    by (simp add: float_defs)
  have c: "\<exists>m. compute_baseline_metrics seq_mean g1 = Inr (Some m) \<and>
     economic_loss_inr_per_day m = 1"
    unfolding compute_baseline_metrics_def Let_def
    by (simp add: py_truediv_def metric_example_defs float_defs)
  from a b c show ?thesis by auto
qed

section \<open>Citizen satisfaction composite\<close>

lemma population_defaults_agree:
  assumes "\<forall>p \<in> set ps. affected_population p \<noteq> None"
  shows "map (get_affected_population 1) ps = map (get_affected_population 0) ps"
  using assms by (induction ps) (auto simp: get_affected_population_def)

text \<open>
  For profiles that all carry a population, the composite is the population-weighted
  mean whenever the total population is positive; it is 0 for no profiles and for
  two groups of equal size with scores 10 and -10.
\<close>

lemma satisfaction_weighted_mean:
  assumes "\<forall>p \<in> set ps. affected_population p \<noteq> None"
    and "0 < (\<Sum>p \<leftarrow> ps. get_affected_population 0 p)"
  shows "overall_satisfaction ps = spec_satisfaction ps"
proof -
  from assms(2) have ne: "ps \<noteq> []" by auto
  show ?thesis
    using assms(2) ne
    by (simp add: overall_satisfaction_def spec_satisfaction_def Let_def
        population_defaults_agree [OF assms(1)])
qed

lemma satisfaction_empty: "overall_satisfaction [] = 0"
  by (simp add: overall_satisfaction_def)

lemma satisfaction_balanced:
  "overall_satisfaction [example_profile ''commuters'' 10 (Some 100),
                         example_profile ''students'' (- 10) (Some 100)] = 0"
  by (simp add: overall_satisfaction_def example_profile_def get_affected_population_def
      get_impact_score_def)

text \<open>
  Claim C9 has the composite equal to the population-weighted mean of the scores.
  The code sums the populations for the denominator with default 1 for a missing
  population and for the numerator with default 0: for a group of one person with
  score 10 and a second group with score 10 and no population given, the composite
  is 5, while the weighted mean is 10.
\<close>

theorem satisfaction_missing_population:
  "overall_satisfaction [example_profile ''commuters'' 10 (Some 1),
                         example_profile ''students'' 10 None] = 5 \<and>
   spec_satisfaction [example_profile ''commuters'' 10 (Some 1),
                      example_profile ''students'' 10 None] = 10 \<and>
   citizen_satisfaction_score [example_profile ''commuters'' 10 (Some 1),
                               example_profile ''students'' 10 None] = 5"
  by (simp add: overall_satisfaction_def spec_satisfaction_def citizen_satisfaction_score_def
      example_profile_def get_affected_population_def get_impact_score_def float_defs)

end
